theory Spec2Isabelle
  imports Main "HOL-Library.AList"
begin

section \<open>Data model of \<^verbatim>\<open>src/core/resource/vnet.go\<close>\<close>

text \<open>
  Field names carry a prefix per struct, because several structs of the source share the
  field names \<^verbatim>\<open>Name\<close>, \<^verbatim>\<open>IPv4_CIDR\<close> and \<^verbatim>\<open>KeyValueList\<close>.
  A Go slice that is only ranged over is a list. A slice that ends up in a persisted
  document is a \<open>list option\<close>: \<open>None\<close> is the nil slice (JSON \<^verbatim>\<open>null\<close>),
  \<open>Some []\<close> the empty, non-nil slice (JSON \<^verbatim>\<open>[]\<close>).
\<close>

type_synonym KeyValue = "string \<times> string"

record IID =
  NameId :: string
  SystemId :: string

record SpiderSubnetReqInfo =
  ssr_Name :: string
  ssr_IPv4_CIDR :: string
  ssr_KeyValueList :: "KeyValue list"

record SpiderVPCReqInfo =
  vr_Name :: string
  vr_IPv4_CIDR :: string
  vr_SubnetInfoList :: "SpiderSubnetReqInfo list"
  vr_CSPId :: string

record SpiderVPCReqInfoWrapper =
  w_ConnectionName :: string
  w_ReqInfo :: SpiderVPCReqInfo

record SpiderSubnetInfo =
  ss_IId :: IID
  ss_Zone :: string
  ss_IPv4_CIDR :: string
  ss_TagList :: "KeyValue list"
  ss_KeyValueList :: "KeyValue list"

record SpiderVPCInfo =
  vpc_IId :: IID
  vpc_IPv4_CIDR :: string
  vpc_SubnetInfoList :: "SpiderSubnetInfo list"
  vpc_TagList :: "KeyValue list option"
  vpc_KeyValueList :: "KeyValue list option"

record TbSubnetReq =
  sn_Name :: string
  sn_IdFromCsp :: string
  sn_IPv4_CIDR :: string
  sn_Zone :: string
  sn_KeyValueList :: "KeyValue list"
  sn_Description :: string

record TbVNetReq =
  req_Name :: string
  req_ConnectionName :: string
  req_CidrBlock :: string
  req_SubnetInfoList :: "TbSubnetReq list"
  req_Description :: string
  req_CspVNetId :: string

text \<open>
  \<^verbatim>\<open>TbVNetInfo\<close>: the fields of the declaration in vnet.go together with \<^verbatim>\<open>Uuid\<close>,
  which \<^verbatim>\<open>CreateVNet\<close> assigns. The element type of \<^verbatim>\<open>SubnetInfoList\<close>
  (\<^verbatim>\<open>TbSubnetInfo\<close>) is declared outside the source at hand and is the type
  parameter \<open>'s\<close>.
\<close>

record 's TbVNetInfo =
  vn_Id :: string
  vn_Name :: string
  vn_Uuid :: string
  vn_ConnectionName :: string
  vn_CidrBlock :: string
  vn_SubnetInfoList :: "'s list option"
  vn_Description :: string
  vn_CspVNetId :: string
  vn_CspVNetName :: string
  vn_Status :: string
  vn_KeyValueList :: "KeyValue list option"
  vn_AssociatedObjectList :: "string list option"
  vn_IsAutoGenerated :: bool
  vn_SystemLabel :: string

text \<open>The zero value \<^verbatim>\<open>model.TbVNetInfo{}\<close>.\<close>

definition TbVNetInfo_zero :: "'s TbVNetInfo" where
  "TbVNetInfo_zero =
     \<lparr>vn_Id = [], vn_Name = [], vn_Uuid = [], vn_ConnectionName = [], vn_CidrBlock = [],
      vn_SubnetInfoList = None, vn_Description = [], vn_CspVNetId = [], vn_CspVNetName = [],
      vn_Status = [], vn_KeyValueList = None, vn_AssociatedObjectList = None,
      vn_IsAutoGenerated = False, vn_SystemLabel = []\<rparr>"

text \<open>
  Go's \<^verbatim>\<open>error\<close> values, by origin: \<^verbatim>\<open>common.CheckString\<close>, the validator's
  \<^verbatim>\<open>ValidationErrors\<close> (field and tag per entry), \<^verbatim>\<open>fmt.Errorf\<close>,
  \<^verbatim>\<open>common.ExecuteHttpRequest\<close>, \<^verbatim>\<open>kvstore.Put\<close> and
  \<^verbatim>\<open>label.CreateOrUpdateLabel\<close>.
\<close>

datatype error =
    CheckStringError string
  | ValidationErrors "(string \<times> string) list"
  | Errorf string
  | HttpError string
  | KvError string
  | LabelError string

text \<open>One request to the Spider driver, as handed to \<^verbatim>\<open>common.ExecuteHttpRequest\<close>.\<close>

record http_call =
  hc_method :: string
  hc_url :: string
  hc_body :: SpiderVPCReqInfoWrapper

text \<open>
  The store: the vNet documents of the key-value store by key, and the label index.
  A stored text stands as the object that \<^verbatim>\<open>json.Unmarshal\<close> fills from it:
  \<^verbatim>\<open>CreateVNet\<close> only logs the error of \<^verbatim>\<open>json.Unmarshal\<close>, and
  \<^verbatim>\<open>json.Marshal\<close> followed by \<^verbatim>\<open>json.Unmarshal\<close> at the same struct type
  restores every field.
\<close>

record 's store =
  kv :: "string \<rightharpoonup> 's TbVNetInfo"
  labels :: "string \<rightharpoonup> (string \<times> (string \<times> string) list)"

text \<open>
  The calls \<^verbatim>\<open>CreateVNet\<close> makes to its collaborators, in order. A call is recorded
  when it is made, whatever it returns.
\<close>

datatype 's event =
    DriverCall http_call
  | KvPut string "'s TbVNetInfo"
  | SubnetCall string string TbSubnetReq bool
  | LabelCall string string string "(string \<times> string) list"

record 's world =
  store :: "'s store"
  trace :: "'s event list"
  uid_ctr :: nat

text \<open>
  The collaborators of \<^verbatim>\<open>CreateVNet\<close> whose code is not part of the source at hand
  are parameters:
  \<^item> \<open>CheckString\<close>: \<^verbatim>\<open>common.CheckString\<close>, the error message or \<open>None\<close>;
  \<^item> \<open>CheckResource\<close>: the pair \<^verbatim>\<open>(check, err)\<close> it returns on a store;
  \<^item> \<open>GenUid\<close>: the n-th identifier \<^verbatim>\<open>common.GenUid\<close> hands out;
  \<^item> \<open>SpiderRestUrl\<close>: \<^verbatim>\<open>model.SpiderRestUrl\<close>;
  \<^item> \<open>ExecuteHttpRequest\<close>: the driver's answer to a request, an error message or the
    decoded \<^verbatim>\<open>callResult\<close> (\<^verbatim>\<open>common.SetUseBody\<close> is part of it);
  \<^item> \<open>Put_err\<close>: the error of \<^verbatim>\<open>kvstore.Put\<close> on a key, when the store refuses the write;
  \<^item> \<open>Get_err\<close>: the error of \<^verbatim>\<open>kvstore.GetKv\<close> on a key, when the read fails;
  \<^item> \<open>CreateSubnet\<close>: its error and its effect on the store;
  \<^item> \<open>Label_err\<close>: the error of \<^verbatim>\<open>label.CreateOrUpdateLabel\<close> for a kind and uid,
    when the index refuses the write.
\<close>

record 's env =
  CheckString :: "string \<Rightarrow> string option"
  CheckResource :: "string \<Rightarrow> string \<Rightarrow> string \<Rightarrow> 's store \<Rightarrow> bool \<times> string option"
  GenUid :: "nat \<Rightarrow> string"
  SpiderRestUrl :: string
  ExecuteHttpRequest :: "http_call \<Rightarrow> string + SpiderVPCInfo"
  Put_err :: "string \<Rightarrow> string option"
  Get_err :: "string \<Rightarrow> string option"
  CreateSubnet :: "string \<Rightarrow> string \<Rightarrow> TbSubnetReq \<Rightarrow> bool \<Rightarrow> 's store \<Rightarrow> string option \<times> 's store"
  Label_err :: "string \<Rightarrow> string \<Rightarrow> string option"

section \<open>Operations of \<^verbatim>\<open>src/core/resource/vnet.go\<close>\<close>

text \<open>Modelled from the spec: the constant \<^verbatim>\<open>model.StrVNet\<close>, the kind \<^verbatim>\<open>vNet\<close>.\<close>

definition StrVNet :: string where
  "StrVNet = ''vNet''"

text \<open>
  Modelled from the spec: \<^verbatim>\<open>common.GenResourceKey\<close>, the key layout
  \<^verbatim>\<open>/ns/{nsId}/resources/{kind}/{id}\<close> of the data model.
\<close>

definition GenResourceKey :: "string \<Rightarrow> string \<Rightarrow> string \<Rightarrow> string" where
  "GenResourceKey nsId kind resourceId = ''/ns/'' @ nsId @ ''/resources/'' @ kind @ ''/'' @ resourceId"

text \<open>
  Modelled from the spec: \<^verbatim>\<open>kvstore.Put\<close> and \<^verbatim>\<open>kvstore.GetKv\<close> of the KV
  abstraction. A write is atomic per key: it stores the value, or fails and leaves the
  store as it was. A read fails with an error and no value, or returns the entry or none.
\<close>

definition kvstore_Put :: "'s env \<Rightarrow> string \<Rightarrow> 's TbVNetInfo \<Rightarrow> 's world \<Rightarrow> error option \<times> 's world" where
  "kvstore_Put env key val s =
     (let s' = s\<lparr>trace := trace s @ [KvPut key val]\<rparr> in
      case Put_err env key of
        Some e \<Rightarrow> (Some (KvError e), s')
      | None \<Rightarrow> (None, s'\<lparr>store := (store s')\<lparr>kv := (kv (store s'))(key \<mapsto> val)\<rparr>\<rparr>))"

definition kvstore_GetKv :: "'s env \<Rightarrow> string \<Rightarrow> 's world \<Rightarrow> 's TbVNetInfo option \<times> error option" where
  "kvstore_GetKv env key s =
     (case Get_err env key of
        Some e \<Rightarrow> (None, Some (KvError e))
      | None \<Rightarrow> (kv (store s) key, None))"

text \<open>
  Modelled from the spec: \<^verbatim>\<open>label.CreateOrUpdateLabel\<close> of the label index, which
  writes \<^verbatim>\<open>/label/{kind}/{uuid}\<close> with the primary key and the labels.
\<close>

definition CreateOrUpdateLabel ::
  "'s env \<Rightarrow> string \<Rightarrow> string \<Rightarrow> string \<Rightarrow> (string \<times> string) list \<Rightarrow> 's world \<Rightarrow> error option \<times> 's world" where
  "CreateOrUpdateLabel env kind uid key lbls s =
     (let s' = s\<lparr>trace := trace s @ [LabelCall kind uid key lbls]\<rparr> in
      case Label_err env kind uid of
        Some e \<Rightarrow> (Some (LabelError e), s')
      | None \<Rightarrow>
          (None, s'\<lparr>store := (store s')\<lparr>labels :=
                     (labels (store s'))(''/label/'' @ kind @ ''/'' @ uid \<mapsto> (key, lbls))\<rparr>\<rparr>))"

text \<open>
  \<^verbatim>\<open>TbVNetReqStructLevelValidation\<close>: one reported error on \<^verbatim>\<open>Name\<close> when
  \<^verbatim>\<open>common.CheckString(u.Name)\<close> fails.
\<close>

definition TbVNetReqStructLevelValidation :: "'s env \<Rightarrow> TbVNetReq \<Rightarrow> (string \<times> string) list" where
  "TbVNetReqStructLevelValidation env u =
     (case CheckString env (req_Name u) of
        None \<Rightarrow> []
      | Some e \<Rightarrow> [(''Name'', e)])"

text \<open>
  \<^verbatim>\<open>validate.Struct(u)\<close> on a \<^verbatim>\<open>TbVNetReq\<close>: the tags \<^verbatim>\<open>validate:"required"\<close>
  of \<^verbatim>\<open>Name\<close> and \<^verbatim>\<open>ConnectionName\<close> (a required string is a non-empty one), then the
  struct-level validation. No other field carries a tag, and the elements of
  \<^verbatim>\<open>SubnetInfoList\<close> are not visited (the field has no \<^verbatim>\<open>dive\<close> tag). The request
  is a struct value, so the \<^verbatim>\<open>InvalidValidationError\<close> of a nil argument does not arise.
\<close>

definition validate_Struct :: "'s env \<Rightarrow> TbVNetReq \<Rightarrow> error option" where
  "validate_Struct env u =
     (let errs =
            (if req_Name u = [] then [(''Name'', ''required'')] else []) @
            (if req_ConnectionName u = [] then [(''ConnectionName'', ''required'')] else []) @
            TbVNetReqStructLevelValidation env u
      in if errs = [] then None else Some (ValidationErrors errs))"

text \<open>
  Lines 189 to 205: each requested subnet is converted through JSON into a
  \<^verbatim>\<open>SpiderSubnetReqInfo\<close>, which copies the fields of equal name (\<^verbatim>\<open>Name\<close>,
  \<^verbatim>\<open>IPv4_CIDR\<close>, \<^verbatim>\<open>KeyValueList\<close>), and its name is set to the given subnet name.
\<close>

definition spiderSubnetInfo :: "TbSubnetReq \<Rightarrow> SpiderSubnetReqInfo" where
  "spiderSubnetInfo v =
     \<lparr>ssr_Name = sn_Name v, ssr_IPv4_CIDR = sn_IPv4_CIDR v, ssr_KeyValueList = sn_KeyValueList v\<rparr>
       \<lparr>ssr_Name := sn_Name v\<rparr>"

text \<open>Lines 182 to 205: the request body.\<close>

definition requestBody :: "TbVNetReq \<Rightarrow> string \<Rightarrow> SpiderVPCReqInfoWrapper" where
  "requestBody u uuid =
     \<lparr>w_ConnectionName = req_ConnectionName u,
      w_ReqInfo = \<lparr>vr_Name = uuid, vr_IPv4_CIDR = req_CidrBlock u,
                   vr_SubnetInfoList = map spiderSubnetInfo (req_SubnetInfoList u),
                   vr_CSPId = req_CspVNetId u\<rparr>\<rparr>"

text \<open>Lines 207 to 219: method and URL by the option.\<close>

definition driver_request :: "'s env \<Rightarrow> TbVNetReq \<Rightarrow> string \<Rightarrow> string \<Rightarrow> http_call" where
  "driver_request env u opt uuid =
     (if opt = ''register'' \<and> req_CspVNetId u = [] then
        \<lparr>hc_method = ''GET'', hc_url = SpiderRestUrl env @ ''/vpc/'' @ req_Name u,
         hc_body = requestBody u uuid\<rparr>
      else if opt = ''register'' \<and> req_CspVNetId u \<noteq> [] then
        \<lparr>hc_method = ''POST'', hc_url = SpiderRestUrl env @ ''/regvpc'',
         hc_body = requestBody u uuid\<rparr>
      else
        \<lparr>hc_method = ''POST'', hc_url = SpiderRestUrl env @ ''/vpc'',
         hc_body = requestBody u uuid\<rparr>)"

text \<open>Lines 236 to 253: the vNet object built from the request and the driver's answer.\<close>

definition content :: "TbVNetReq \<Rightarrow> string \<Rightarrow> string \<Rightarrow> SpiderVPCInfo \<Rightarrow> 's TbVNetInfo" where
  "content u opt uuid callResult =
     (let c = TbVNetInfo_zero
                \<lparr>vn_Id := req_Name u,
                 vn_Name := req_Name u,
                 vn_Uuid := uuid,
                 vn_ConnectionName := req_ConnectionName u,
                 vn_CspVNetId := SystemId (vpc_IId callResult),
                 vn_CspVNetName := NameId (vpc_IId callResult),
                 vn_CidrBlock := vpc_IPv4_CIDR callResult,
                 vn_Description := req_Description u,
                 vn_KeyValueList := vpc_KeyValueList callResult,
                 vn_AssociatedObjectList := Some []\<rparr>
      in if opt = ''register'' \<and> req_CspVNetId u = [] then
           c\<lparr>vn_SystemLabel := ''Registered from CB-Spider resource''\<rparr>
         else if opt = ''register'' \<and> req_CspVNetId u \<noteq> [] then
           c\<lparr>vn_SystemLabel := ''Registered from CSP resource''\<rparr>
         else c)"

text \<open>
  Lines 265 to 276: each subnet of the driver's answer is converted through JSON into a
  \<^verbatim>\<open>TbSubnetReq\<close>, which copies \<^verbatim>\<open>Zone\<close>, \<^verbatim>\<open>IPv4_CIDR\<close> and
  \<^verbatim>\<open>KeyValueList\<close>; then the name and the CSP id are taken from the driver's IID.
\<close>

definition tbSubnetReq :: "SpiderSubnetInfo \<Rightarrow> TbSubnetReq" where
  "tbSubnetReq v =
     \<lparr>sn_Name = [], sn_IdFromCsp = [], sn_IPv4_CIDR = ss_IPv4_CIDR v, sn_Zone = ss_Zone v,
      sn_KeyValueList = ss_KeyValueList v, sn_Description = []\<rparr>
       \<lparr>sn_Name := NameId (ss_IId v), sn_IdFromCsp := SystemId (ss_IId v)\<rparr>"

text \<open>
  Lines 264 to 282: one \<^verbatim>\<open>CreateSubnet(nsId, content.Id, tbSubnetReq, true)\<close> per subnet
  of the driver's answer; an error is logged and the loop goes on.
\<close>

fun create_subnets :: "'s env \<Rightarrow> string \<Rightarrow> string \<Rightarrow> SpiderSubnetInfo list \<Rightarrow> 's world \<Rightarrow> 's world" where
  "create_subnets env nsId vNetId [] s = s"
| "create_subnets env nsId vNetId (v # vs) s =
     (let r = CreateSubnet env nsId vNetId (tbSubnetReq v) True (store s)
      in create_subnets env nsId vNetId vs
           (s\<lparr>store := snd r,
              trace := trace s @ [SubnetCall nsId vNetId (tbSubnetReq v) True]\<rparr>))"

text \<open>
  Lines 255 to 309: after the driver has answered. The write of the object; on its failure
  the object and the error are returned. Then the subnets, and the read of the key again:
  the error of a failed \<^verbatim>\<open>kvstore.GetKv\<close> is logged and the function goes on, with
  \<^verbatim>\<open>result\<close> at its zero value, as for a missing entry. Then the label; on the label's
  failure the object built and the error are returned, else \<^verbatim>\<open>result\<close> and no error.
\<close>

definition persist_vnet ::
  "'s env \<Rightarrow> string \<Rightarrow> string \<Rightarrow> 's TbVNetInfo \<Rightarrow> SpiderVPCInfo \<Rightarrow> 's world
     \<Rightarrow> ('s TbVNetInfo \<times> error option) \<times> 's world" where
  "persist_vnet env nsId uuid c callResult s =
     (let Key = GenResourceKey nsId StrVNet (vn_Id c);
          p = kvstore_Put env Key c s
      in case fst p of
           Some e \<Rightarrow> ((c, Some e), snd p)
         | None \<Rightarrow>
             (let s4 = create_subnets env nsId (vn_Id c) (vpc_SubnetInfoList callResult) (snd p);
                  keyValue = kvstore_GetKv env Key s4;
                  result = (case fst keyValue of None \<Rightarrow> TbVNetInfo_zero | Some r \<Rightarrow> r);
                  lbls = [(''provider'', ''cb-tumblebug''), (''namespace'', nsId)];
                  l = CreateOrUpdateLabel env StrVNet uuid Key lbls s4
              in case fst l of
                   Some e \<Rightarrow> ((c, Some e), snd l)
                 | None \<Rightarrow> ((result, None), snd l)))"

text \<open>
  \<^verbatim>\<open>CreateVNet(nsId, u, option)\<close>, returning the pair \<^verbatim>\<open>(TbVNetInfo, error)\<close> of the
  source and the world after the call.
\<close>

definition CreateVNet ::
  "'s env \<Rightarrow> string \<Rightarrow> TbVNetReq \<Rightarrow> string \<Rightarrow> 's world \<Rightarrow> ('s TbVNetInfo \<times> error option) \<times> 's world" where
  "CreateVNet env nsId u opt s =
     (case CheckString env nsId of
        Some e \<Rightarrow> ((TbVNetInfo_zero, Some (CheckStringError e)), s)
      | None \<Rightarrow>
     (case validate_Struct env u of
        Some e \<Rightarrow> ((TbVNetInfo_zero, Some e), s)
      | None \<Rightarrow>
     (let chk = CheckResource env nsId StrVNet (req_Name u) (store s) in
      if fst chk then
        ((TbVNetInfo_zero, Some (Errorf (''The vNet '' @ req_Name u @ '' already exists.''))), s)
      else if snd chk \<noteq> None then
        ((TbVNetInfo_zero,
          Some (Errorf (''Failed to check the existence of the vNet '' @ req_Name u @ ''.''))), s)
      else
       (let uuid = GenUid env (uid_ctr s);
            call = driver_request env u opt uuid;
            s2 = s\<lparr>uid_ctr := Suc (uid_ctr s), trace := trace s @ [DriverCall call]\<rparr>
        in case ExecuteHttpRequest env call of
             Inl e \<Rightarrow> ((TbVNetInfo_zero, Some (HttpError e)), s2)
           | Inr callResult \<Rightarrow>
               persist_vnet env nsId uuid (content u opt uuid callResult) callResult s2))))"

section \<open>The configuration store (package \<^verbatim>\<open>common\<close>)\<close>

record ConfigReq =
  cr_Name :: string
  cr_Value :: string

record ConfigInfo =
  ci_Id :: string
  ci_Name :: string
  ci_Value :: string

text \<open>
  Errors of the configuration functions: the error of a \<^verbatim>\<open>CBStore\<close> call, an error
  made with \<^verbatim>\<open>fmt.Errorf\<close>, the error of \<^verbatim>\<open>json.Unmarshal\<close>, and the panic of
  reading a field through the nil \<^verbatim>\<open>*KeyValue\<close> that \<^verbatim>\<open>CBStore.Get\<close> returns
  for a missing key.
\<close>

datatype cerror = StoreError string | ConfigErrorf string | UnmarshalError string | NilDereference

text \<open>
  A stored text stands as the outcome of \<^verbatim>\<open>json.Unmarshal\<close> on it: the
  \<^verbatim>\<open>ConfigInfo\<close> it fills and the error it reports, if any. The text that
  \<^verbatim>\<open>json.Marshal\<close> makes of an object decodes to that object without an error.
\<close>

type_synonym stored = "ConfigInfo \<times> string option"

definition Marshal :: "ConfigInfo \<Rightarrow> stored" where
  "Marshal c = (c, None)"

text \<open>
  The state: the entries of \<^verbatim>\<open>CBStore\<close>, in the order of the store, and the seven
  package-level variables that mirror the configuration.
\<close>

record cstate =
  CBStore :: "(string \<times> stored) list"
  SPIDER_REST_URL :: string
  DRAGONFLY_REST_URL :: string
  DB_URL :: string
  DB_DATABASE :: string
  DB_USER :: string
  DB_PASSWORD :: string
  AUTOCONTROL_DURATION_MS :: string

text \<open>
  Modelled from the spec: the constants \<^verbatim>\<open>StrSPIDER_REST_URL\<close> to
  \<^verbatim>\<open>StrAUTOCONTROL_DURATION_MS\<close> are declared outside the source at hand; the
  enumerated configuration keys give their values.
\<close>

definition StrSPIDER_REST_URL :: string where
  "StrSPIDER_REST_URL = ''SPIDER_REST_URL''"

definition StrDRAGONFLY_REST_URL :: string where
  "StrDRAGONFLY_REST_URL = ''DRAGONFLY_REST_URL''"

definition StrDB_URL :: string where
  "StrDB_URL = ''DB_URL''"

definition StrDB_DATABASE :: string where
  "StrDB_DATABASE = ''DB_DATABASE''"

definition StrDB_USER :: string where
  "StrDB_USER = ''DB_USER''"

definition StrDB_PASSWORD :: string where
  "StrDB_PASSWORD = ''DB_PASSWORD''"

definition StrAUTOCONTROL_DURATION_MS :: string where
  "StrAUTOCONTROL_DURATION_MS = ''AUTOCONTROL_DURATION_MS''"

text \<open>
  Modelled from the spec: \<^verbatim>\<open>CBStore.Put\<close>, \<^verbatim>\<open>CBStore.Get\<close>,
  \<^verbatim>\<open>CBStore.GetList\<close> and \<^verbatim>\<open>GetChildList\<close> of the KV abstraction. A write stores
  the value under the key or fails and changes nothing (\<open>put_err\<close> gives the error of a
  refused write); a read returns the entry or none; the list holds the entries under a
  prefix, in no promised order; the child list keeps the entries one level below the prefix.
  Where the source tests the error of a read (\<^verbatim>\<open>GetConfig\<close>, \<^verbatim>\<open>ListConfig\<close>),
  \<open>get_err\<close> and \<open>list_err\<close> give the error of a failed read; where the source drops
  the error (\<^verbatim>\<open>UpdateConfig\<close>, \<^verbatim>\<open>CheckConfig\<close>) only the entry returned matters.
\<close>

definition CBStore_Put ::
  "(string \<Rightarrow> string option) \<Rightarrow> string \<Rightarrow> stored \<Rightarrow> cstate \<Rightarrow> cerror option \<times> cstate" where
  "CBStore_Put put_err key val s =
     (case put_err key of
        Some e \<Rightarrow> (Some (StoreError e), s)
      | None \<Rightarrow> (None, s\<lparr>CBStore := AList.update key val (CBStore s)\<rparr>))"

definition CBStore_Get :: "string \<Rightarrow> cstate \<Rightarrow> stored option" where
  "CBStore_Get key s = map_of (CBStore s) key"

definition CBStore_GetList :: "string \<Rightarrow> cstate \<Rightarrow> (string \<times> stored) list" where
  "CBStore_GetList key s = filter (\<lambda>kv. take (length key) (fst kv) = key) (CBStore s)"

definition GetChildList :: "(string \<times> stored) list \<Rightarrow> string \<Rightarrow> (string \<times> stored) list" where
  "GetChildList keyValue key =
     filter (\<lambda>kv. take (Suc (length key)) (fst kv) = key @ ''/''
                 \<and> drop (Suc (length key)) (fst kv) \<noteq> []
                 \<and> CHR ''/'' \<notin> set (drop (Suc (length key)) (fst kv))) keyValue"

definition ConfigInfo_zero :: ConfigInfo where
  "ConfigInfo_zero = \<lparr>ci_Id = [], ci_Name = [], ci_Value = []\<rparr>"

text \<open>\<^verbatim>\<open>CheckConfig(id)\<close>, returning \<^verbatim>\<open>(bool, error)\<close>.\<close>

definition CheckConfig :: "string \<Rightarrow> cstate \<Rightarrow> bool \<times> cerror option" where
  "CheckConfig cid s =
     (if cid = [] then (False, Some (ConfigErrorf ''CheckConfig failed; configId given is null.''))
      else case CBStore_Get (''/config/'' @ cid) s of
             Some keyValue \<Rightarrow> (True, None)
           | None \<Rightarrow> (False, None))"

text \<open>
  \<^verbatim>\<open>GetConfig(id)\<close>, returning \<^verbatim>\<open>(ConfigInfo, error)\<close>. After a positive check the
  entry is read again: the error of the read is returned with the zero object; the source
  then reads \<^verbatim>\<open>keyValue.Key\<close> without a nil test; the error of
  \<^verbatim>\<open>json.Unmarshal\<close> is returned with what it has filled.
\<close>

definition GetConfig :: "(string \<Rightarrow> string option) \<Rightarrow> string \<Rightarrow> cstate \<Rightarrow> ConfigInfo \<times> cerror option" where
  "GetConfig get_err cid s =
     (let chk = CheckConfig cid s in
      if \<not> fst chk then
        (ConfigInfo_zero, Some (ConfigErrorf (''The config '' @ cid @ '' does not exist.'')))
      else if snd chk \<noteq> None then (ConfigInfo_zero, snd chk)
      else case get_err (''/config/'' @ cid) of
             Some e \<Rightarrow> (ConfigInfo_zero, Some (StoreError e))
           | None \<Rightarrow>
               (case CBStore_Get (''/config/'' @ cid) s of
                  None \<Rightarrow> (ConfigInfo_zero, Some NilDereference)
                | Some keyValue \<Rightarrow>
                    (case snd keyValue of
                       Some e \<Rightarrow> (fst keyValue, Some (UnmarshalError e))
                     | None \<Rightarrow> (fst keyValue, None))))"

text \<open>
  \<^verbatim>\<open>UpdateEnv(id)\<close>: the \<^verbatim>\<open>switch\<close> over the seven names, in the source's order;
  the \<^verbatim>\<open>default\<close> case does nothing.
\<close>

definition UpdateEnv :: "(string \<Rightarrow> string option) \<Rightarrow> string \<Rightarrow> cstate \<Rightarrow> cerror option \<times> cstate" where
  "UpdateEnv get_err cid s =
     (let g = GetConfig get_err cid s; configInfo = fst g in
      if snd g \<noteq> None then (snd g, s)
      else if cid = StrSPIDER_REST_URL then (None, s\<lparr>SPIDER_REST_URL := ci_Value configInfo\<rparr>)
      else if cid = StrDRAGONFLY_REST_URL then (None, s\<lparr>DRAGONFLY_REST_URL := ci_Value configInfo\<rparr>)
      else if cid = StrDB_URL then (None, s\<lparr>DB_URL := ci_Value configInfo\<rparr>)
      else if cid = StrDB_DATABASE then (None, s\<lparr>DB_DATABASE := ci_Value configInfo\<rparr>)
      else if cid = StrDB_USER then (None, s\<lparr>DB_USER := ci_Value configInfo\<rparr>)
      else if cid = StrDB_PASSWORD then (None, s\<lparr>DB_PASSWORD := ci_Value configInfo\<rparr>)
      else if cid = StrAUTOCONTROL_DURATION_MS then
        (None, s\<lparr>AUTOCONTROL_DURATION_MS := ci_Value configInfo\<rparr>)
      else (None, s))"

text \<open>
  \<^verbatim>\<open>UpdateConfig(u)\<close>, returning \<^verbatim>\<open>(ConfigInfo, error)\<close> and the state after the
  call. The error of \<^verbatim>\<open>UpdateEnv\<close> is dropped, as in the source.
\<close>

definition UpdateConfig ::
  "(string \<Rightarrow> string option) \<Rightarrow> (string \<Rightarrow> string option) \<Rightarrow> ConfigReq \<Rightarrow> cstate
     \<Rightarrow> (ConfigInfo \<times> cerror option) \<times> cstate" where
  "UpdateConfig put_err get_err u s =
     (let content = \<lparr>ci_Id = cr_Name u, ci_Name = cr_Name u, ci_Value = cr_Value u\<rparr>;
          key = ''/config/'' @ ci_Id content;
          p = CBStore_Put put_err key (Marshal content) s
      in case fst p of
           Some e \<Rightarrow> ((content, Some e), snd p)
         | None \<Rightarrow>
             (case CBStore_Get key (snd p) of
                None \<Rightarrow> ((content, Some NilDereference), snd p)
              | Some keyValue \<Rightarrow> ((content, None), snd (UpdateEnv get_err (ci_Id content) (snd p)))))"

text \<open>
  The loop of \<^verbatim>\<open>ListConfig\<close>: each entry is decoded and appended to \<^verbatim>\<open>res\<close>; the
  first error of \<^verbatim>\<open>json.Unmarshal\<close> is returned with the nil slice.
\<close>

fun unmarshal_all :: "stored list \<Rightarrow> ConfigInfo list \<Rightarrow> ConfigInfo list option \<times> cerror option" where
  "unmarshal_all [] res = (Some res, None)"
| "unmarshal_all (v # vs) res =
     (case snd v of
        Some e \<Rightarrow> (None, Some (UnmarshalError e))
      | None \<Rightarrow> unmarshal_all vs (res @ [fst v]))"

text \<open>
  \<^verbatim>\<open>ListConfig()\<close>, returning \<^verbatim>\<open>([]ConfigInfo, error)\<close>; \<open>None\<close> is the nil slice.
  The error of \<^verbatim>\<open>CBStore.GetList\<close> is returned with the nil slice.
\<close>

definition ListConfig :: "(string \<Rightarrow> string option) \<Rightarrow> cstate \<Rightarrow> ConfigInfo list option \<times> cerror option" where
  "ListConfig list_err s =
     (case list_err ''/config'' of
        Some e \<Rightarrow> (None, Some (StoreError e))
      | None \<Rightarrow>
          (let keyValue = GetChildList (CBStore_GetList ''/config'' s) ''/config'' in
           if keyValue \<noteq> [] then unmarshal_all (map snd keyValue) [] else (None, None)))"

section \<open>Notions used in the statements\<close>

text \<open>The requests sent to the driver and the writes to the store that a trace records.\<close>

fun driver_calls :: "'s event list \<Rightarrow> http_call list" where
  "driver_calls [] = []"
| "driver_calls (DriverCall c # es) = c # driver_calls es"
| "driver_calls (_ # es) = driver_calls es"

fun kv_puts :: "'s event list \<Rightarrow> (string \<times> 's TbVNetInfo) list" where
  "kv_puts [] = []"
| "kv_puts (KvPut k v # es) = (k, v) # kv_puts es"
| "kv_puts (_ # es) = kv_puts es"

text \<open>The call \<^verbatim>\<open>CreateSubnet(nsId, vNetId, tbSubnetReq, true)\<close> for a subnet of the driver.\<close>

definition subnet_call :: "string \<Rightarrow> string \<Rightarrow> SpiderSubnetInfo \<Rightarrow> 's event" where
  "subnet_call nsId vNetId v = SubnetCall nsId vNetId (tbSubnetReq v) True"

text \<open>The resource names in the body of a request: the VPC's, then the subnets'.\<close>

definition sent_names :: "http_call \<Rightarrow> string list" where
  "sent_names c =
     vr_Name (w_ReqInfo (hc_body c)) # map ssr_Name (vr_SubnetInfoList (w_ReqInfo (hc_body c)))"

text \<open>
  The store after the calls of \<^verbatim>\<open>CreateSubnet\<close> for the subnets of the driver, one
  after the other, whatever each returns.
\<close>

definition subnet_step :: "'s env \<Rightarrow> string \<Rightarrow> string \<Rightarrow> 's store \<Rightarrow> SpiderSubnetInfo \<Rightarrow> 's store" where
  "subnet_step env nsId vNetId st v = snd (CreateSubnet env nsId vNetId (tbSubnetReq v) True st)"

text \<open>The store with one more vNet entry, and with one more label entry.\<close>

definition with_vnet :: "'s store \<Rightarrow> string \<Rightarrow> 's TbVNetInfo \<Rightarrow> 's store" where
  "with_vnet st key c = st\<lparr>kv := (kv st)(key \<mapsto> c)\<rparr>"

definition with_label :: "'s store \<Rightarrow> string \<Rightarrow> string \<times> (string \<times> string) list \<Rightarrow> 's store" where
  "with_label st key l = st\<lparr>labels := (labels st)(key \<mapsto> l)\<rparr>"

text \<open>The fields of a vNet object that echo the request or the driver's CIDR.\<close>

definition user_fields :: "'s TbVNetInfo \<Rightarrow> string \<times> string \<times> string \<times> string \<times> string" where
  "user_fields c = (vn_Id c, vn_Name c, vn_ConnectionName c, vn_CidrBlock c, vn_Description c)"

text \<open>The names in the \<^verbatim>\<open>switch\<close> of \<^verbatim>\<open>UpdateEnv\<close>, and each with its variable.\<close>

definition allow_list :: "string list" where
  "allow_list = [StrSPIDER_REST_URL, StrDRAGONFLY_REST_URL, StrDB_URL, StrDB_DATABASE, StrDB_USER,
                 StrDB_PASSWORD, StrAUTOCONTROL_DURATION_MS]"

definition mirrors :: "cstate \<Rightarrow> (string \<times> string) list" where
  "mirrors s =
     [(StrSPIDER_REST_URL, SPIDER_REST_URL s), (StrDRAGONFLY_REST_URL, DRAGONFLY_REST_URL s),
      (StrDB_URL, DB_URL s), (StrDB_DATABASE, DB_DATABASE s), (StrDB_USER, DB_USER s),
      (StrDB_PASSWORD, DB_PASSWORD s), (StrAUTOCONTROL_DURATION_MS, AUTOCONTROL_DURATION_MS s)]"

section \<open>Concrete collaborators and inputs\<close>

text \<open>
  A name check that refuses the empty name and names with a blank; an existence check that
  looks the key up; distinct identifiers; a subnet creation that records the subnet in its
  parent vNet; a driver that refuses a CIDR without a slash and otherwise answers with
  the VPC under the requested name and the network address \<^verbatim>\<open>10.0.0.0/16\<close>.
\<close>

definition demo_CheckString :: "string \<Rightarrow> string option" where
  "demo_CheckString name =
     (if name = [] then Some ''The provided name is empty.''
      else if CHR '' '' \<in> set name then Some ''The name must follow the naming rules.''
      else None)"

definition demo_CheckResource ::
  "string \<Rightarrow> string \<Rightarrow> string \<Rightarrow> TbSubnetReq store \<Rightarrow> bool \<times> string option" where
  "demo_CheckResource nsId kind resourceId st = (kv st (GenResourceKey nsId kind resourceId) \<noteq> None, None)"

definition demo_GenUid :: "nat \<Rightarrow> string" where
  "demo_GenUid n = ''uid'' @ replicate n CHR ''x''"

definition demo_CreateSubnet ::
  "string \<Rightarrow> string \<Rightarrow> TbSubnetReq \<Rightarrow> bool \<Rightarrow> TbSubnetReq store \<Rightarrow> string option \<times> TbSubnetReq store" where
  "demo_CreateSubnet nsId vNetId req objectOnly st =
     (case kv st (GenResourceKey nsId StrVNet vNetId) of
        None \<Rightarrow> (Some ''The vNet does not exist.'', st)
      | Some c \<Rightarrow>
          (None, st\<lparr>kv := (kv st)(GenResourceKey nsId StrVNet vNetId \<mapsto>
                     c\<lparr>vn_SubnetInfoList :=
                          Some ((case vn_SubnetInfoList c of None \<Rightarrow> [] | Some l \<Rightarrow> l) @ [req])\<rparr>)\<rparr>))"

definition demo_subnet_answer :: "SpiderSubnetReqInfo \<Rightarrow> SpiderSubnetInfo" where
  "demo_subnet_answer r =
     \<lparr>ss_IId = \<lparr>NameId = ssr_Name r, SystemId = ''subnet-0c2d''\<rparr>, ss_Zone = ''zone-a'',
      ss_IPv4_CIDR = ssr_IPv4_CIDR r, ss_TagList = [], ss_KeyValueList = ssr_KeyValueList r\<rparr>"

definition demo_driver :: "http_call \<Rightarrow> string + SpiderVPCInfo" where
  "demo_driver c =
     (if CHR ''/'' \<notin> set (vr_IPv4_CIDR (w_ReqInfo (hc_body c))) then Inl ''400 Bad Request''
      else Inr \<lparr>vpc_IId = \<lparr>NameId = vr_Name (w_ReqInfo (hc_body c)), SystemId = ''vpc-0a1b''\<rparr>,
                vpc_IPv4_CIDR = ''10.0.0.0/16'',
                vpc_SubnetInfoList = map demo_subnet_answer (vr_SubnetInfoList (w_ReqInfo (hc_body c))),
                vpc_TagList = None, vpc_KeyValueList = None\<rparr>)"

definition demo_answer :: SpiderVPCInfo where
  "demo_answer =
     \<lparr>vpc_IId = \<lparr>NameId = ''uid'', SystemId = ''vpc-0a1b''\<rparr>, vpc_IPv4_CIDR = ''10.0.0.0/16'',
      vpc_SubnetInfoList =
        [\<lparr>ss_IId = \<lparr>NameId = ''subnet-a'', SystemId = ''subnet-0c2d''\<rparr>, ss_Zone = ''zone-a'',
          ss_IPv4_CIDR = ''10.0.1.0/24'', ss_TagList = [], ss_KeyValueList = []\<rparr>],
      vpc_TagList = None, vpc_KeyValueList = None\<rparr>"

definition failing_driver :: "http_call \<Rightarrow> string + SpiderVPCInfo" where
  "failing_driver c = Inl ''503 Service Unavailable''"

definition no_error :: "string \<Rightarrow> string option" where
  "no_error key = None"

definition store_down :: "string \<Rightarrow> string option" where
  "store_down key = Some ''store unavailable''"

definition demo_env :: "TbSubnetReq env" where
  "demo_env =
     \<lparr>CheckString = demo_CheckString, CheckResource = demo_CheckResource, GenUid = demo_GenUid,
      SpiderRestUrl = ''http://localhost:1024/spider'', ExecuteHttpRequest = demo_driver,
      Put_err = no_error, Get_err = no_error, CreateSubnet = demo_CreateSubnet,
      Label_err = (\<lambda>kind. no_error)\<rparr>"

definition demo_env_driver_down :: "TbSubnetReq env" where
  "demo_env_driver_down = demo_env\<lparr>ExecuteHttpRequest := failing_driver\<rparr>"

definition demo_env_store_down :: "TbSubnetReq env" where
  "demo_env_store_down = demo_env\<lparr>Put_err := store_down\<rparr>"

definition demo_env_read_down :: "TbSubnetReq env" where
  "demo_env_read_down = demo_env\<lparr>Get_err := store_down\<rparr>"

definition failing_CreateSubnet ::
  "string \<Rightarrow> string \<Rightarrow> TbSubnetReq \<Rightarrow> bool \<Rightarrow> TbSubnetReq store \<Rightarrow> string option \<times> TbSubnetReq store" where
  "failing_CreateSubnet nsId vNetId req objectOnly st = (Some ''The subnet cannot be created.'', st)"

definition demo_env_subnet_down :: "TbSubnetReq env" where
  "demo_env_subnet_down = demo_env\<lparr>CreateSubnet := failing_CreateSubnet\<rparr>"

definition demo_world :: "TbSubnetReq world" where
  "demo_world = \<lparr>store = \<lparr>kv = Map.empty, labels = Map.empty\<rparr>, trace = [], uid_ctr = 0\<rparr>"

definition demo_subnet :: TbSubnetReq where
  "demo_subnet =
     \<lparr>sn_Name = ''subnet-a'', sn_IdFromCsp = [], sn_IPv4_CIDR = ''10.0.1.0/24'', sn_Zone = [],
      sn_KeyValueList = [], sn_Description = []\<rparr>"

definition demo_req :: TbVNetReq where
  "demo_req =
     \<lparr>req_Name = ''vnet1'', req_ConnectionName = ''aws-seoul'', req_CidrBlock = ''10.0.0.1/16'',
      req_SubnetInfoList = [demo_subnet], req_Description = ''first network'', req_CspVNetId = []\<rparr>"

definition bad_cidr_req :: TbVNetReq where
  "bad_cidr_req = demo_req\<lparr>req_CidrBlock := ''not-a-cidr''\<rparr>"

definition no_connection_req :: TbVNetReq where
  "no_connection_req = demo_req\<lparr>req_ConnectionName := []\<rparr>"

definition demo_cstate :: cstate where
  "demo_cstate =
     \<lparr>CBStore = [], SPIDER_REST_URL = ''http://localhost:1024/spider'',
      DRAGONFLY_REST_URL = ''http://localhost:9090/dragonfly'', DB_URL = ''localhost:3306'',
      DB_DATABASE = ''cb_tumblebug'', DB_USER = ''cb_tumblebug'', DB_PASSWORD = ''cb_tumblebug'',
      AUTOCONTROL_DURATION_MS = ''10000''\<rparr>"

definition spider_url_req :: ConfigReq where
  "spider_url_req = \<lparr>cr_Name = ''SPIDER_REST_URL'', cr_Value = ''http://x:1''\<rparr>"

definition unknown_key_req :: ConfigReq where
  "unknown_key_req = \<lparr>cr_Name = ''LOG_LEVEL'', cr_Value = ''debug''\<rparr>"

definition spider_url_info :: ConfigInfo where
  "spider_url_info = \<lparr>ci_Id = ''SPIDER_REST_URL'', ci_Name = ''SPIDER_REST_URL'', ci_Value = ''http://x:1''\<rparr>"

section \<open>Auxiliary facts\<close>

lemmas Str_defs = StrSPIDER_REST_URL_def StrDRAGONFLY_REST_URL_def StrDB_URL_def StrDB_DATABASE_def
  StrDB_USER_def StrDB_PASSWORD_def StrAUTOCONTROL_DURATION_MS_def

lemmas demo_defs = demo_env_def demo_env_driver_down_def demo_env_store_down_def
  demo_env_read_down_def demo_env_subnet_down_def failing_CreateSubnet_def demo_world_def
  demo_req_def demo_subnet_def bad_cidr_req_def no_connection_req_def demo_CheckString_def
  demo_CheckResource_def demo_GenUid_def demo_CreateSubnet_def demo_driver_def
  demo_subnet_answer_def failing_driver_def no_error_def store_down_def

lemmas CreateVNet_defs = CreateVNet_def persist_vnet_def kvstore_Put_def kvstore_GetKv_def
  CreateOrUpdateLabel_def validate_Struct_def TbVNetReqStructLevelValidation_def
  driver_request_def requestBody_def spiderSubnetInfo_def content_def tbSubnetReq_def
  TbVNetInfo_zero_def GenResourceKey_def StrVNet_def Let_def

lemma driver_calls_append: "driver_calls (xs @ ys) = driver_calls xs @ driver_calls ys"
  by (induction xs rule: driver_calls.induct) simp_all

lemma kv_puts_append: "kv_puts (xs @ ys) = kv_puts xs @ kv_puts ys"
  by (induction xs rule: kv_puts.induct) simp_all

lemma driver_calls_subnet: "driver_calls (map (subnet_call nsId vNetId) vs) = []"
  by (induction vs) (simp_all add: subnet_call_def)


lemma create_subnets_trace:
  "trace (create_subnets env nsId vNetId vs s) = trace s @ map (subnet_call nsId vNetId) vs"
  by (induction vs arbitrary: s) (simp_all add: Let_def subnet_call_def)

lemma create_subnets_uid_ctr: "uid_ctr (create_subnets env nsId vNetId vs s) = uid_ctr s"
  by (induction vs arbitrary: s) (simp_all add: Let_def)

lemma create_subnets_store:
  "store (create_subnets env nsId vNetId vs s) = foldl (subnet_step env nsId vNetId) (store s) vs"
  by (induction vs arbitrary: s) (simp_all add: Let_def subnet_step_def)

text \<open>
  When each \<^verbatim>\<open>CreateSubnet\<close> leaves the entry under a key in place with the same
  value of \<open>f\<close>, so does the loop.
\<close>

lemma subnet_steps_frame:
  assumes frame: "\<And>req st c. kv st key = Some c \<Longrightarrow>
             \<exists>c'. kv (snd (CreateSubnet env nsId vNetId req True st)) key = Some c' \<and> f c' = f c"
    and "kv st0 key = Some c"
  shows "\<exists>c'. kv (foldl (subnet_step env nsId vNetId) st0 vs) key = Some c' \<and> f c' = f c"
  using assms(2)
proof (induction vs arbitrary: st0 c)
  case Nil
  then show ?case by simp
next
  case (Cons v vs)
  from frame[OF Cons.prems, of "tbSubnetReq v"] obtain c1 where
    c1: "kv (subnet_step env nsId vNetId st0 v) key = Some c1" "f c1 = f c"
    unfolding subnet_step_def by blast
  from Cons.IH[OF c1(1)] obtain c' where
    "kv (foldl (subnet_step env nsId vNetId) (subnet_step env nsId vNetId st0 v) vs) key = Some c'"
    "f c' = f c1"
    by blast
  with c1(2) show ?case by simp
qed

lemma validate_Struct_None_iff:
  "validate_Struct env u = None \<longleftrightarrow>
     req_Name u \<noteq> [] \<and> req_ConnectionName u \<noteq> [] \<and> CheckString env (req_Name u) = None"
  by (auto simp: validate_Struct_def TbVNetReqStructLevelValidation_def Let_def split: option.splits)

lemma validate_Struct_Some:
  "validate_Struct env u = Some e \<Longrightarrow> \<exists>es. e = ValidationErrors es"
  by (auto simp: validate_Struct_def Let_def split: if_splits)

text \<open>What a call that returns no error has gone through.\<close>

lemma CreateVNet_success:
  assumes "snd (fst (CreateVNet env nsId u opt s)) = None"
  shows "CheckString env nsId = None \<and> validate_Struct env u = None
       \<and> \<not> fst (CheckResource env nsId StrVNet (req_Name u) (store s))
       \<and> (\<exists>callResult.
            ExecuteHttpRequest env (driver_request env u opt (GenUid env (uid_ctr s))) = Inr callResult
          \<and> CreateVNet env nsId u opt s =
              persist_vnet env nsId (GenUid env (uid_ctr s))
                (content u opt (GenUid env (uid_ctr s)) callResult) callResult
                (s\<lparr>uid_ctr := Suc (uid_ctr s),
                   trace := trace s @ [DriverCall (driver_request env u opt (GenUid env (uid_ctr s)))]\<rparr>))"
  using assms
  by (simp add: CreateVNet_def Let_def split: option.splits if_splits sum.splits)

lemma persist_vnet_success:
  assumes "snd (fst (persist_vnet env nsId uuid c callResult s)) = None"
  shows "Put_err env (GenResourceKey nsId StrVNet (vn_Id c)) = None
       \<and> Label_err env StrVNet uuid = None
       \<and> trace (snd (persist_vnet env nsId uuid c callResult s)) =
           trace s @ [KvPut (GenResourceKey nsId StrVNet (vn_Id c)) c]
             @ map (subnet_call nsId (vn_Id c)) (vpc_SubnetInfoList callResult)
             @ [LabelCall StrVNet uuid (GenResourceKey nsId StrVNet (vn_Id c))
                  [(''provider'', ''cb-tumblebug''), (''namespace'', nsId)]]
       \<and> store (snd (persist_vnet env nsId uuid c callResult s)) =
           with_label
             (foldl (subnet_step env nsId (vn_Id c))
                (with_vnet (store s) (GenResourceKey nsId StrVNet (vn_Id c)) c)
                (vpc_SubnetInfoList callResult))
             (''/label/'' @ StrVNet @ ''/'' @ uuid)
             (GenResourceKey nsId StrVNet (vn_Id c),
              [(''provider'', ''cb-tumblebug''), (''namespace'', nsId)])"
  using assms
  by (simp add: persist_vnet_def kvstore_Put_def CreateOrUpdateLabel_def Let_def create_subnets_trace
           create_subnets_store with_vnet_def with_label_def
           split: option.splits)

text \<open>The object returned without an error is the outcome of the read of the key.\<close>

lemma persist_vnet_returned:
  assumes "snd (fst (persist_vnet env nsId uuid c callResult s)) = None"
  shows "fst (fst (persist_vnet env nsId uuid c callResult s)) =
           (case fst (kvstore_GetKv env (GenResourceKey nsId StrVNet (vn_Id c))
                        (snd (persist_vnet env nsId uuid c callResult s))) of
              None \<Rightarrow> TbVNetInfo_zero
            | Some r \<Rightarrow> r)"
  using assms
  by (simp add: persist_vnet_def kvstore_Put_def CreateOrUpdateLabel_def kvstore_GetKv_def Let_def
           split: option.splits)

lemma content_fields:
  "vn_Id (content u opt uuid callResult) = req_Name u"
  "vn_Name (content u opt uuid callResult) = req_Name u"
  "vn_Uuid (content u opt uuid callResult) = uuid"
  "vn_ConnectionName (content u opt uuid callResult) = req_ConnectionName u"
  "vn_Description (content u opt uuid callResult) = req_Description u"
  "vn_CidrBlock (content u opt uuid callResult) = vpc_IPv4_CIDR callResult"
  "vn_CspVNetId (content u opt uuid callResult) = SystemId (vpc_IId callResult)"
  "vn_CspVNetName (content u opt uuid callResult) = NameId (vpc_IId callResult)"
  "vn_AssociatedObjectList (content u opt uuid callResult) = Some []"
  by (simp_all add: content_def Let_def TbVNetInfo_zero_def)

lemma driver_request_body: "hc_body (driver_request env u opt uuid) = requestBody u uuid"
  by (simp add: driver_request_def)

text \<open>
  A call that returns no error, with the driver's answer: its trace, the store it leaves,
  and the object it returns.
\<close>

lemma CreateVNet_success_run:
  assumes ok: "snd (fst (CreateVNet env nsId u opt s)) = None"
  shows "\<exists>callResult.
           ExecuteHttpRequest env (driver_request env u opt (GenUid env (uid_ctr s))) = Inr callResult
         \<and> trace (snd (CreateVNet env nsId u opt s)) =
             trace s
             @ [DriverCall (driver_request env u opt (GenUid env (uid_ctr s))),
                KvPut (GenResourceKey nsId StrVNet (req_Name u))
                      (content u opt (GenUid env (uid_ctr s)) callResult)]
             @ map (subnet_call nsId (req_Name u)) (vpc_SubnetInfoList callResult)
             @ [LabelCall StrVNet (GenUid env (uid_ctr s)) (GenResourceKey nsId StrVNet (req_Name u))
                  [(''provider'', ''cb-tumblebug''), (''namespace'', nsId)]]
         \<and> store (snd (CreateVNet env nsId u opt s)) =
             with_label
               (foldl (subnet_step env nsId (req_Name u))
                  (with_vnet (store s) (GenResourceKey nsId StrVNet (req_Name u))
                     (content u opt (GenUid env (uid_ctr s)) callResult))
                  (vpc_SubnetInfoList callResult))
               (''/label/'' @ StrVNet @ ''/'' @ GenUid env (uid_ctr s))
               (GenResourceKey nsId StrVNet (req_Name u),
                [(''provider'', ''cb-tumblebug''), (''namespace'', nsId)])
         \<and> fst (fst (CreateVNet env nsId u opt s)) =
             (case fst (kvstore_GetKv env (GenResourceKey nsId StrVNet (req_Name u))
                          (snd (CreateVNet env nsId u opt s))) of
                None \<Rightarrow> TbVNetInfo_zero
              | Some r \<Rightarrow> r)"
proof -
  let ?uuid = "GenUid env (uid_ctr s)"
  let ?call = "driver_request env u opt ?uuid"
  let ?s2 = "s\<lparr>uid_ctr := Suc (uid_ctr s), trace := trace s @ [DriverCall ?call]\<rparr>"
  from CreateVNet_success[OF ok] obtain callResult where
    drv: "ExecuteHttpRequest env ?call = Inr callResult" and
    eq: "CreateVNet env nsId u opt s =
           persist_vnet env nsId ?uuid (content u opt ?uuid callResult) callResult ?s2"
    by blast
  from ok eq have ok': "snd (fst (persist_vnet env nsId ?uuid (content u opt ?uuid callResult) callResult ?s2)) = None"
    by simp
  from persist_vnet_success[OF ok'] persist_vnet_returned[OF ok'] eq drv show ?thesis
    by (simp add: content_fields)
qed

text \<open>
  The entry of the vNet in the store that a call without an error leaves, when each
  \<^verbatim>\<open>CreateSubnet\<close> keeps the value of \<open>f\<close> on it.
\<close>

lemma CreateVNet_entry:
  assumes ok: "snd (fst (CreateVNet env nsId u opt s)) = None"
    and drv: "ExecuteHttpRequest env (driver_request env u opt (GenUid env (uid_ctr s))) = Inr callResult"
    and frame: "\<And>req st c. kv st (GenResourceKey nsId StrVNet (req_Name u)) = Some c \<Longrightarrow>
             \<exists>c'. kv (snd (CreateSubnet env nsId (req_Name u) req True st))
                      (GenResourceKey nsId StrVNet (req_Name u)) = Some c' \<and> f c' = f c"
  shows "\<exists>c'. kv (store (snd (CreateVNet env nsId u opt s))) (GenResourceKey nsId StrVNet (req_Name u)) = Some c'
            \<and> f c' = f (content u opt (GenUid env (uid_ctr s)) callResult)"
proof -
  let ?Key = "GenResourceKey nsId StrVNet (req_Name u)"
  let ?c = "content u opt (GenUid env (uid_ctr s)) callResult :: 'a TbVNetInfo"
  from CreateVNet_success_run[OF ok] drv
  have st: "store (snd (CreateVNet env nsId u opt s)) =
             with_label
               (foldl (subnet_step env nsId (req_Name u)) (with_vnet (store s) ?Key ?c)
                  (vpc_SubnetInfoList callResult))
               (''/label/'' @ StrVNet @ ''/'' @ GenUid env (uid_ctr s))
               (?Key, [(''provider'', ''cb-tumblebug''), (''namespace'', nsId)])"
    by auto
  have "kv (with_vnet (store s) ?Key ?c) ?Key = Some ?c" by (simp add: with_vnet_def)
  from subnet_steps_frame[of ?Key env nsId "req_Name u" f, OF frame this]
  obtain c' where "kv (foldl (subnet_step env nsId (req_Name u)) (with_vnet (store s) ?Key ?c)
                  (vpc_SubnetInfoList callResult)) ?Key = Some c'" "f c' = f ?c"
    by blast
  then show ?thesis by (simp add: st with_label_def)
qed

lemma UpdateConfig_ok_iff:
  "snd (fst (UpdateConfig put_err get_err u s)) = None \<longleftrightarrow> put_err (''/config/'' @ cr_Name u) = None"
  by (auto simp: UpdateConfig_def Let_def CBStore_Put_def CBStore_Get_def update_conv' split: option.splits)

lemma UpdateEnv_CBStore: "CBStore (snd (UpdateEnv get_err cid s)) = CBStore s"
  by (simp add: UpdateEnv_def Let_def)

lemma UpdateConfig_store:
  "put_err (''/config/'' @ cr_Name u) = None \<Longrightarrow>
   CBStore (snd (UpdateConfig put_err get_err u s)) =
     AList.update (''/config/'' @ cr_Name u)
       (Marshal \<lparr>ci_Id = cr_Name u, ci_Name = cr_Name u, ci_Value = cr_Value u\<rparr>) (CBStore s)"
  by (simp add: UpdateConfig_def Let_def CBStore_Put_def CBStore_Get_def update_conv' UpdateEnv_CBStore)

lemma mem_update: "(k, v) \<in> set (AList.update k v al)"
  by (induction al) auto

lemma allow_no_slash: "n \<in> set allow_list \<Longrightarrow> n \<noteq> [] \<and> CHR ''/'' \<notin> set n"
  by (auto simp: allow_list_def Str_defs)

lemma unmarshal_all_ok:
  "snd (unmarshal_all vs res) = None \<Longrightarrow> fst (unmarshal_all vs res) = Some (res @ map fst vs)"
  by (induction vs arbitrary: res) (auto split: option.splits)

lemma unmarshal_all_decoded:
  "snd (unmarshal_all vs res) = None \<Longrightarrow> v \<in> set vs \<Longrightarrow> snd v = None"
  by (induction vs arbitrary: res) (auto split: option.splits)

lemma ListConfig_member:
  assumes mem: "(''/config/'' @ n, (c, e)) \<in> set (CBStore s)" and n: "n \<noteq> []" "CHR ''/'' \<notin> set n"
    and ok: "snd (ListConfig list_err s) = None"
  shows "\<exists>l. fst (ListConfig list_err s) = Some l \<and> c \<in> set l"
proof -
  let ?kv = "GetChildList (CBStore_GetList ''/config'' s) ''/config''"
  have m: "(''/config/'' @ n, (c, e)) \<in> set ?kv"
    using mem n by (simp add: GetChildList_def CBStore_GetList_def)
  then have ne: "?kv \<noteq> []" by force
  from m have m': "(c, e) \<in> set (map snd ?kv)" by force
  from ok have le: "list_err ''/config'' = None"
    by (simp add: ListConfig_def split: option.splits)
  with ne have eq: "ListConfig list_err s = unmarshal_all (map snd ?kv) []"
    by (simp add: ListConfig_def Let_def)
  with ok have "fst (ListConfig list_err s) = Some (map fst (map snd ?kv))"
    using unmarshal_all_ok[of "map snd ?kv" "[]"] by simp
  moreover from m' have "c \<in> set (map fst (map snd ?kv))" by force
  ultimately show ?thesis by blast
qed

lemma GetConfig_found:
  assumes "map_of (CBStore s) (''/config/'' @ n) = Some (c, None)" "n \<noteq> []"
    "get_err (''/config/'' @ n) = None"
  shows "GetConfig get_err n s = (c, None)"
  using assms by (simp add: GetConfig_def CheckConfig_def CBStore_Get_def Let_def)

lemma UpdateEnv_mirror:
  assumes "GetConfig get_err n s = (c, None)" "n \<in> set allow_list"
  shows "map_of (mirrors (snd (UpdateEnv get_err n s))) n = Some (ci_Value c)"
proof -
  consider "n = StrSPIDER_REST_URL" | "n = StrDRAGONFLY_REST_URL" | "n = StrDB_URL"
    | "n = StrDB_DATABASE" | "n = StrDB_USER" | "n = StrDB_PASSWORD" | "n = StrAUTOCONTROL_DURATION_MS"
    using assms(2) by (auto simp: allow_list_def)
  then show ?thesis
  proof cases
    case 1 then show ?thesis using assms(1) by (simp add: UpdateEnv_def Let_def mirrors_def)
  next
    case 2 then show ?thesis using assms(1) by (simp add: UpdateEnv_def Let_def mirrors_def Str_defs)
  next
    case 3 then show ?thesis using assms(1) by (simp add: UpdateEnv_def Let_def mirrors_def Str_defs)
  next
    case 4 then show ?thesis using assms(1) by (simp add: UpdateEnv_def Let_def mirrors_def Str_defs)
  next
    case 5 then show ?thesis using assms(1) by (simp add: UpdateEnv_def Let_def mirrors_def Str_defs)
  next
    case 6 then show ?thesis using assms(1) by (simp add: UpdateEnv_def Let_def mirrors_def Str_defs)
  next
    case 7 then show ?thesis using assms(1) by (simp add: UpdateEnv_def Let_def mirrors_def Str_defs)
  qed
qed

lemma UpdateEnv_default:
  assumes "n \<notin> set allow_list"
  shows "UpdateEnv get_err n s = (snd (GetConfig get_err n s), s)"
  using assms by (simp add: UpdateEnv_def Let_def allow_list_def)

text \<open>The runs of the concrete request on the concrete collaborators.\<close>

lemma demo_call_ok: "snd (fst (CreateVNet demo_env ''ns1'' demo_req [] demo_world)) = None"
  by (simp add: CreateVNet_defs demo_defs)

lemma demo_register_ok: "snd (fst (CreateVNet demo_env ''ns1'' demo_req ''register'' demo_world)) = None"
  by (simp add: CreateVNet_defs demo_defs)

lemma demo_drv_uid:
  "ExecuteHttpRequest demo_env (driver_request demo_env demo_req [] ''uid'') = Inr demo_answer"
  by (simp add: demo_defs demo_answer_def driver_request_def requestBody_def spiderSubnetInfo_def)

lemma demo_frame:
  "kv st (GenResourceKey ''ns1'' StrVNet (req_Name demo_req)) = Some c \<Longrightarrow>
     \<exists>c'. kv (snd (CreateSubnet demo_env ''ns1'' (req_Name demo_req) req True st))
               (GenResourceKey ''ns1'' StrVNet (req_Name demo_req)) = Some c'
          \<and> vn_Id c' = vn_Id c \<and> vn_Name c' = vn_Name c \<and> vn_Uuid c' = vn_Uuid c
          \<and> vn_ConnectionName c' = vn_ConnectionName c \<and> vn_CidrBlock c' = vn_CidrBlock c
          \<and> vn_Description c' = vn_Description c \<and> vn_CspVNetId c' = vn_CspVNetId c
          \<and> vn_CspVNetName c' = vn_CspVNetName c
          \<and> vn_AssociatedObjectList c' = vn_AssociatedObjectList c"
  by (simp add: demo_defs)

lemma demo_consts:
  "GenUid demo_env (uid_ctr demo_world) = ''uid''"
  "GenResourceKey ''ns1'' StrVNet ''vnet1'' = ''/ns/ns1/resources/vNet/vnet1''"
  "req_Name demo_req = ''vnet1''"
  "req_ConnectionName demo_req = ''aws-seoul''"
  "req_Description demo_req = ''first network''"
  "req_CspVNetId demo_req = []"
  "req_SubnetInfoList demo_req = [demo_subnet]"
  "sn_Name demo_subnet = ''subnet-a''"
  "SpiderRestUrl demo_env = ''http://localhost:1024/spider''"
  "trace demo_world = []"
  "Get_err demo_env = no_error"
  by (simp_all add: demo_defs GenResourceKey_def StrVNet_def)

lemma spider_url_run:
  "CBStore (snd (UpdateConfig no_error get_err spider_url_req demo_cstate)) =
     [(''/config/SPIDER_REST_URL'', Marshal spider_url_info)]"
  by (simp add: UpdateConfig_store no_error_def) (simp add: spider_url_req_def demo_cstate_def spider_url_info_def)

section \<open>The claims\<close>

text \<open>
  Claim C1. When the driver's request fails, \<^verbatim>\<open>CreateVNet\<close> returns an error and
  persists nothing: the store (vNet entries and label index) is as before, no write to the
  store and no label call is made, and the only call recorded is the request to the driver.
  On the path that reaches the driver, the error returned is the driver's.
\<close>

theorem CreateVNet_driver_failure:
  assumes "ExecuteHttpRequest env (driver_request env u opt (GenUid env (uid_ctr s))) = Inl e"
  shows "snd (fst (CreateVNet env nsId u opt s)) \<noteq> None
       \<and> store (snd (CreateVNet env nsId u opt s)) = store s
       \<and> kv_puts (trace (snd (CreateVNet env nsId u opt s))) = kv_puts (trace s)
       \<and> (trace (snd (CreateVNet env nsId u opt s)) = trace s
          \<or> trace (snd (CreateVNet env nsId u opt s)) =
              trace s @ [DriverCall (driver_request env u opt (GenUid env (uid_ctr s)))])
       \<and> (CheckString env nsId = None \<and> validate_Struct env u = None
            \<and> CheckResource env nsId StrVNet (req_Name u) (store s) = (False, None)
          \<longrightarrow> fst (CreateVNet env nsId u opt s) = (TbVNetInfo_zero, Some (HttpError e)))"
  using assms by (simp add: CreateVNet_def Let_def kv_puts_append split: option.splits)

theorem CreateVNet_driver_failure_witness:
  "ExecuteHttpRequest demo_env_driver_down
     (driver_request demo_env_driver_down demo_req [] (GenUid demo_env_driver_down (uid_ctr demo_world)))
     = Inl ''503 Service Unavailable''
   \<and> fst (CreateVNet demo_env_driver_down ''ns1'' demo_req [] demo_world)
       = (TbVNetInfo_zero, Some (HttpError ''503 Service Unavailable''))
   \<and> store (snd (CreateVNet demo_env_driver_down ''ns1'' demo_req [] demo_world)) = store demo_world
   \<and> kv_puts (trace (snd (CreateVNet demo_env_driver_down ''ns1'' demo_req [] demo_world))) = []"
proof -
  have h: "ExecuteHttpRequest demo_env_driver_down
     (driver_request demo_env_driver_down demo_req [] (GenUid demo_env_driver_down (uid_ctr demo_world)))
     = Inl ''503 Service Unavailable''"
    by (simp add: demo_env_driver_down_def demo_env_def failing_driver_def)
  have p: "CheckString demo_env_driver_down ''ns1'' = None
         \<and> validate_Struct demo_env_driver_down demo_req = None
         \<and> CheckResource demo_env_driver_down ''ns1'' StrVNet (req_Name demo_req) (store demo_world)
             = (False, None)"
    by (simp add: demo_defs validate_Struct_None_iff)
  have t: "kv_puts (trace demo_world) = []" by (simp add: demo_world_def)
  show ?thesis
    using h p t CreateVNet_driver_failure [OF h, of "''ns1''"] by simp
qed

text \<open>
  Claim C2. When \<^verbatim>\<open>CheckResource\<close> reports that a vNet with the id \<^verbatim>\<open>u.Name\<close>
  exists in the namespace, a second \<^verbatim>\<open>CreateVNet(nsId, u)\<close>, after one that succeeded,
  returns the error "The vNet ... already exists." and leaves the world as it was: no write
  to the store, no request to the driver, no identifier drawn.
\<close>

theorem CreateVNet_already_exists:
  assumes first: "snd (fst (CreateVNet env nsId u opt0 s0)) = None"
    and exists: "fst (CheckResource env nsId StrVNet (req_Name u) (store s))"
  shows "CreateVNet env nsId u opt s =
           ((TbVNetInfo_zero, Some (Errorf (''The vNet '' @ req_Name u @ '' already exists.''))), s)"
proof -
  from CreateVNet_success[OF first]
  have "CheckString env nsId = None" "validate_Struct env u = None" by simp_all
  with exists show ?thesis by (simp add: CreateVNet_def Let_def)
qed

theorem CreateVNet_already_exists_witness:
  "snd (fst (CreateVNet demo_env ''ns1'' demo_req [] demo_world)) = None
   \<and> fst (CheckResource demo_env ''ns1'' StrVNet (req_Name demo_req)
            (store (snd (CreateVNet demo_env ''ns1'' demo_req [] demo_world))))
   \<and> CreateVNet demo_env ''ns1'' demo_req [] (snd (CreateVNet demo_env ''ns1'' demo_req [] demo_world)) =
       ((TbVNetInfo_zero, Some (Errorf ''The vNet vnet1 already exists.'')),
        snd (CreateVNet demo_env ''ns1'' demo_req [] demo_world))"
proof -
  have first: "snd (fst (CreateVNet demo_env ''ns1'' demo_req [] demo_world)) = None"
    by (rule demo_call_ok)
  have exists: "fst (CheckResource demo_env ''ns1'' StrVNet (req_Name demo_req)
            (store (snd (CreateVNet demo_env ''ns1'' demo_req [] demo_world))))"
    by (simp add: CreateVNet_defs demo_defs)
  have name: "req_Name demo_req = ''vnet1''" by (simp add: demo_req_def)
  show ?thesis
    using first exists CreateVNet_already_exists [OF first exists, of "[]"] by (simp add: name)
qed

text \<open>
  Claim C3, as amended. For every \<^verbatim>\<open>CreateVNet(nsId, u)\<close> that returns no error, when the
  read of the key after the subnets succeeds and each \<^verbatim>\<open>CreateSubnet\<close> leaves the
  parent's entry in place with its id, name, connection name, CIDR block and description:
  the object returned has id and name \<^verbatim>\<open>u.Name\<close>, the connection name and the
  description of the request, and as CIDR block the \<^verbatim>\<open>IPv4_CIDR\<close> of the driver's
  answer; a read of the key after the call returns the same object.
\<close>

theorem CreateVNet_echo:
  assumes ok: "snd (fst (CreateVNet env nsId u opt s)) = None"
    and read: "Get_err env (GenResourceKey nsId StrVNet (req_Name u)) = None"
    and frame: "\<And>req st c. kv st (GenResourceKey nsId StrVNet (req_Name u)) = Some c \<Longrightarrow>
             \<exists>c'. kv (snd (CreateSubnet env nsId (req_Name u) req True st))
                      (GenResourceKey nsId StrVNet (req_Name u)) = Some c'
                  \<and> user_fields c' = user_fields c"
  shows "\<exists>callResult.
           ExecuteHttpRequest env (driver_request env u opt (GenUid env (uid_ctr s))) = Inr callResult
         \<and> user_fields (fst (fst (CreateVNet env nsId u opt s))) =
             (req_Name u, req_Name u, req_ConnectionName u, vpc_IPv4_CIDR callResult, req_Description u)
         \<and> kvstore_GetKv env (GenResourceKey nsId StrVNet (req_Name u)) (snd (CreateVNet env nsId u opt s))
             = (Some (fst (fst (CreateVNet env nsId u opt s))), None)"
proof -
  let ?Key = "GenResourceKey nsId StrVNet (req_Name u)"
  from CreateVNet_success_run[OF ok] obtain callResult where
    drv: "ExecuteHttpRequest env (driver_request env u opt (GenUid env (uid_ctr s))) = Inr callResult"
    and ret: "fst (fst (CreateVNet env nsId u opt s)) =
             (case fst (kvstore_GetKv env ?Key (snd (CreateVNet env nsId u opt s))) of
                None \<Rightarrow> TbVNetInfo_zero
              | Some r \<Rightarrow> r)"
    by blast
  from CreateVNet_entry[OF ok drv frame] obtain c' where
    c': "kv (store (snd (CreateVNet env nsId u opt s))) ?Key = Some c'"
        "user_fields c' = user_fields (content u opt (GenUid env (uid_ctr s)) callResult :: 'a TbVNetInfo)"
    by blast
  have get: "kvstore_GetKv env ?Key (snd (CreateVNet env nsId u opt s)) = (Some c', None)"
    using read c'(1) by (simp add: kvstore_GetKv_def)
  with ret have "fst (fst (CreateVNet env nsId u opt s)) = c'" by simp
  with drv c'(2) get show ?thesis
    by (auto simp: user_fields_def content_fields)
qed

theorem CreateVNet_echo_witness:
  "snd (fst (CreateVNet demo_env ''ns1'' demo_req [] demo_world)) = None
   \<and> Get_err demo_env (GenResourceKey ''ns1'' StrVNet (req_Name demo_req)) = None
   \<and> user_fields (fst (fst (CreateVNet demo_env ''ns1'' demo_req [] demo_world))) =
       (''vnet1'', ''vnet1'', ''aws-seoul'', ''10.0.0.0/16'', ''first network'')
   \<and> vn_SubnetInfoList (fst (fst (CreateVNet demo_env ''ns1'' demo_req [] demo_world))) \<noteq> None
   \<and> kvstore_GetKv demo_env ''/ns/ns1/resources/vNet/vnet1''
        (snd (CreateVNet demo_env ''ns1'' demo_req [] demo_world))
       = (Some (fst (fst (CreateVNet demo_env ''ns1'' demo_req [] demo_world))), None)"
proof -
  have ok: "snd (fst (CreateVNet demo_env ''ns1'' demo_req [] demo_world)) = None"
    by (rule demo_call_ok)
  have read: "Get_err demo_env (GenResourceKey ''ns1'' StrVNet (req_Name demo_req)) = None"
    by (simp add: demo_defs)
  have frame: "kv st (GenResourceKey ''ns1'' StrVNet (req_Name demo_req)) = Some c \<Longrightarrow>
       \<exists>c'. kv (snd (CreateSubnet demo_env ''ns1'' (req_Name demo_req) req True st))
                 (GenResourceKey ''ns1'' StrVNet (req_Name demo_req)) = Some c'
            \<and> user_fields c' = user_fields c" for req st c
    using demo_frame[of st c req] by (auto simp: user_fields_def)
  have sub: "vn_SubnetInfoList (fst (fst (CreateVNet demo_env ''ns1'' demo_req [] demo_world))) \<noteq> None"
    by (simp add: CreateVNet_defs demo_defs)
  have cidr: "vpc_IPv4_CIDR demo_answer = ''10.0.0.0/16''" by (simp add: demo_answer_def)
  from CreateVNet_echo [OF ok read frame] show ?thesis
    using ok read sub by (simp add: demo_drv_uid demo_consts cidr)
qed

text \<open>
  Claim C3 as stated fails. The CIDR block of the result is the driver's, not the
  request's: the request asks for \<^verbatim>\<open>10.0.0.1/16\<close>, the driver answers with the network
  address \<^verbatim>\<open>10.0.0.0/16\<close>, and the call succeeds. And when the read of the key after
  the subnets fails, the same call leaves the same world and returns the zero object with
  no error.
\<close>

theorem CreateVNet_echo_counterexample:
  "snd (fst (CreateVNet demo_env ''ns1'' demo_req [] demo_world)) = None
   \<and> req_CidrBlock demo_req = ''10.0.0.1/16''
   \<and> vn_CidrBlock (fst (fst (CreateVNet demo_env ''ns1'' demo_req [] demo_world))) = ''10.0.0.0/16''
   \<and> vn_CidrBlock (fst (fst (CreateVNet demo_env ''ns1'' demo_req [] demo_world))) \<noteq> req_CidrBlock demo_req
   \<and> CreateVNet demo_env_read_down ''ns1'' demo_req [] demo_world =
       ((TbVNetInfo_zero, None), snd (CreateVNet demo_env ''ns1'' demo_req [] demo_world))"
  by (simp add: CreateVNet_defs demo_defs)

text \<open>
  Claim C4, as amended. \<^verbatim>\<open>UpdateConfig\<close> with a name outside the seven names of
  \<^verbatim>\<open>UpdateEnv\<close> is not rejected: when the store takes the write, the pair is stored at
  \<^verbatim>\<open>/config/{name}\<close> and returned without an error, and the seven mirror variables
  keep their values; when the store refuses the write, that error is returned and the
  state is unchanged.
\<close>

theorem UpdateConfig_unknown_key:
  assumes "cr_Name u \<notin> set allow_list"
  shows "(put_err (''/config/'' @ cr_Name u) = None \<longrightarrow>
            fst (UpdateConfig put_err get_err u s) =
              (\<lparr>ci_Id = cr_Name u, ci_Name = cr_Name u, ci_Value = cr_Value u\<rparr>, None)
          \<and> CBStore_Get (''/config/'' @ cr_Name u) (snd (UpdateConfig put_err get_err u s)) =
              Some (\<lparr>ci_Id = cr_Name u, ci_Name = cr_Name u, ci_Value = cr_Value u\<rparr>, None)
          \<and> mirrors (snd (UpdateConfig put_err get_err u s)) = mirrors s)
       \<and> (\<forall>e. put_err (''/config/'' @ cr_Name u) = Some e \<longrightarrow>
            UpdateConfig put_err get_err u s =
              ((\<lparr>ci_Id = cr_Name u, ci_Name = cr_Name u, ci_Value = cr_Value u\<rparr>, Some (StoreError e)), s))"
proof (intro conjI impI allI)
  assume p: "put_err (''/config/'' @ cr_Name u) = None"
  show "fst (UpdateConfig put_err get_err u s) =
              (\<lparr>ci_Id = cr_Name u, ci_Name = cr_Name u, ci_Value = cr_Value u\<rparr>, None)"
    using p by (simp add: UpdateConfig_def Let_def CBStore_Put_def CBStore_Get_def update_conv')
  show "CBStore_Get (''/config/'' @ cr_Name u) (snd (UpdateConfig put_err get_err u s)) =
              Some (\<lparr>ci_Id = cr_Name u, ci_Name = cr_Name u, ci_Value = cr_Value u\<rparr>, None)"
    using p by (simp add: CBStore_Get_def UpdateConfig_store update_conv' Marshal_def)
  show "mirrors (snd (UpdateConfig put_err get_err u s)) = mirrors s"
    using p assms
    by (simp add: UpdateConfig_def Let_def CBStore_Put_def CBStore_Get_def update_conv'
          UpdateEnv_default mirrors_def)
next
  fix e assume "put_err (''/config/'' @ cr_Name u) = Some e"
  then show "UpdateConfig put_err get_err u s =
              ((\<lparr>ci_Id = cr_Name u, ci_Name = cr_Name u, ci_Value = cr_Value u\<rparr>, Some (StoreError e)), s)"
    by (simp add: UpdateConfig_def Let_def CBStore_Put_def)
qed

theorem UpdateConfig_unknown_key_witness:
  "cr_Name unknown_key_req \<notin> set allow_list
   \<and> no_error (''/config/'' @ cr_Name unknown_key_req) = None
   \<and> CBStore_Get ''/config/LOG_LEVEL'' (snd (UpdateConfig no_error no_error unknown_key_req demo_cstate)) =
       Some (\<lparr>ci_Id = ''LOG_LEVEL'', ci_Name = ''LOG_LEVEL'', ci_Value = ''debug''\<rparr>, None)
   \<and> mirrors (snd (UpdateConfig no_error no_error unknown_key_req demo_cstate)) = mirrors demo_cstate
   \<and> UpdateConfig store_down no_error unknown_key_req demo_cstate =
       ((\<lparr>ci_Id = ''LOG_LEVEL'', ci_Name = ''LOG_LEVEL'', ci_Value = ''debug''\<rparr>,
         Some (StoreError ''store unavailable'')), demo_cstate)"
proof -
  have a: "cr_Name unknown_key_req \<notin> set allow_list"
    by (simp add: unknown_key_req_def allow_list_def Str_defs)
  have b: "no_error (''/config/'' @ cr_Name unknown_key_req) = None" by (simp add: no_error_def)
  have d: "store_down (''/config/'' @ cr_Name unknown_key_req) = Some ''store unavailable''"
    by (simp add: store_down_def)
  have n: "cr_Name unknown_key_req = ''LOG_LEVEL''" "cr_Value unknown_key_req = ''debug''"
    by (simp_all add: unknown_key_req_def)
  from UpdateConfig_unknown_key [OF a, of no_error no_error demo_cstate]
       UpdateConfig_unknown_key [OF a, of store_down no_error demo_cstate] a b d
  show ?thesis by (simp add: n)
qed

text \<open>
  Claim C4 as stated fails: the name \<^verbatim>\<open>LOG_LEVEL\<close> is outside the list, and the
  update returns no error and leaves an entry at \<^verbatim>\<open>/config/LOG_LEVEL\<close>.
\<close>

theorem UpdateConfig_unknown_key_counterexample:
  "cr_Name unknown_key_req \<notin> set allow_list
   \<and> fst (UpdateConfig no_error no_error unknown_key_req demo_cstate) =
       (\<lparr>ci_Id = ''LOG_LEVEL'', ci_Name = ''LOG_LEVEL'', ci_Value = ''debug''\<rparr>, None)
   \<and> CBStore (snd (UpdateConfig no_error no_error unknown_key_req demo_cstate)) =
       [(''/config/LOG_LEVEL'',
         Marshal \<lparr>ci_Id = ''LOG_LEVEL'', ci_Name = ''LOG_LEVEL'', ci_Value = ''debug''\<rparr>)]"
proof -
  have a: "cr_Name unknown_key_req \<notin> set allow_list"
    by (simp add: unknown_key_req_def allow_list_def Str_defs)
  have b: "fst (UpdateConfig no_error no_error unknown_key_req demo_cstate) =
       (\<lparr>ci_Id = ''LOG_LEVEL'', ci_Name = ''LOG_LEVEL'', ci_Value = ''debug''\<rparr>, None)"
    by (simp add: UpdateConfig_def Let_def CBStore_Put_def CBStore_Get_def no_error_def
          unknown_key_req_def demo_cstate_def)
  have c: "CBStore (snd (UpdateConfig no_error no_error unknown_key_req demo_cstate)) =
       [(''/config/LOG_LEVEL'',
         Marshal \<lparr>ci_Id = ''LOG_LEVEL'', ci_Name = ''LOG_LEVEL'', ci_Value = ''debug''\<rparr>)]"
    by (simp add: UpdateConfig_store no_error_def) (simp add: unknown_key_req_def demo_cstate_def)
  from a b c show ?thesis by blast
qed

text \<open>
  Claim C5, as amended. For every \<^verbatim>\<open>CreateVNet\<close> that returns no error, when each
  \<^verbatim>\<open>CreateSubnet\<close> leaves the parent's entry in place with its id, uid and CSP name and
  id: one request goes to the driver; in its body the VPC is named by the identifier drawn
  from \<^verbatim>\<open>GenUid\<close> and each subnet by the name given in the request; with the option
  \<^verbatim>\<open>register\<close> and no \<^verbatim>\<open>CspVNetId\<close> the request is a GET of
  \<^verbatim>\<open>{SpiderRestUrl}/vpc/{u.Name}\<close>, so the URL names the vNet by the id of the request,
  and otherwise a POST to \<^verbatim>\<open>/regvpc\<close> or \<^verbatim>\<open>/vpc\<close>; the entry of the vNet in the store
  after the call has the id \<^verbatim>\<open>u.Name\<close>, that identifier as \<^verbatim>\<open>Uuid\<close>, and the
  \<^verbatim>\<open>NameId\<close> and \<^verbatim>\<open>SystemId\<close> of the driver's answer as \<^verbatim>\<open>CspVNetName\<close> and
  \<^verbatim>\<open>CspVNetId\<close>.
\<close>

theorem CreateVNet_names:
  assumes ok: "snd (fst (CreateVNet env nsId u opt s)) = None"
    and frame: "\<And>req st c. kv st (GenResourceKey nsId StrVNet (req_Name u)) = Some c \<Longrightarrow>
             \<exists>c'. kv (snd (CreateSubnet env nsId (req_Name u) req True st))
                      (GenResourceKey nsId StrVNet (req_Name u)) = Some c'
                  \<and> vn_Id c' = vn_Id c \<and> vn_Uuid c' = vn_Uuid c
                  \<and> vn_CspVNetName c' = vn_CspVNetName c \<and> vn_CspVNetId c' = vn_CspVNetId c"
  shows "\<exists>callResult c.
           ExecuteHttpRequest env (driver_request env u opt (GenUid env (uid_ctr s))) = Inr callResult
         \<and> driver_calls (trace (snd (CreateVNet env nsId u opt s))) =
             driver_calls (trace s) @ [driver_request env u opt (GenUid env (uid_ctr s))]
         \<and> sent_names (driver_request env u opt (GenUid env (uid_ctr s))) =
             GenUid env (uid_ctr s) # map sn_Name (req_SubnetInfoList u)
         \<and> (opt = ''register'' \<and> req_CspVNetId u = [] \<longrightarrow>
              hc_method (driver_request env u opt (GenUid env (uid_ctr s))) = ''GET''
            \<and> hc_url (driver_request env u opt (GenUid env (uid_ctr s))) =
                SpiderRestUrl env @ ''/vpc/'' @ req_Name u)
         \<and> (opt = ''register'' \<and> req_CspVNetId u \<noteq> [] \<longrightarrow>
              hc_method (driver_request env u opt (GenUid env (uid_ctr s))) = ''POST''
            \<and> hc_url (driver_request env u opt (GenUid env (uid_ctr s))) = SpiderRestUrl env @ ''/regvpc'')
         \<and> (opt \<noteq> ''register'' \<longrightarrow>
              hc_method (driver_request env u opt (GenUid env (uid_ctr s))) = ''POST''
            \<and> hc_url (driver_request env u opt (GenUid env (uid_ctr s))) = SpiderRestUrl env @ ''/vpc'')
         \<and> kv (store (snd (CreateVNet env nsId u opt s))) (GenResourceKey nsId StrVNet (req_Name u)) = Some c
         \<and> vn_Id c = req_Name u \<and> vn_Uuid c = GenUid env (uid_ctr s)
         \<and> vn_CspVNetName c = NameId (vpc_IId callResult)
         \<and> vn_CspVNetId c = SystemId (vpc_IId callResult)"
proof -
  let ?uuid = "GenUid env (uid_ctr s)"
  let ?call = "driver_request env u opt ?uuid"
  let ?Key = "GenResourceKey nsId StrVNet (req_Name u)"
  from CreateVNet_success_run[OF ok] obtain callResult where
    drv: "ExecuteHttpRequest env ?call = Inr callResult"
    and tr: "trace (snd (CreateVNet env nsId u opt s)) =
             trace s
             @ [DriverCall ?call, KvPut ?Key (content u opt ?uuid callResult)]
             @ map (subnet_call nsId (req_Name u)) (vpc_SubnetInfoList callResult)
             @ [LabelCall StrVNet ?uuid ?Key [(''provider'', ''cb-tumblebug''), (''namespace'', nsId)]]"
    by blast
  have names: "sent_names ?call = ?uuid # map sn_Name (req_SubnetInfoList u)"
    by (simp add: sent_names_def driver_request_body requestBody_def spiderSubnetInfo_def comp_def)
  have dc: "driver_calls (trace (snd (CreateVNet env nsId u opt s))) = driver_calls (trace s) @ [?call]"
    by (simp add: tr driver_calls_append driver_calls_subnet)
  have url1: "opt = ''register'' \<and> req_CspVNetId u = [] \<longrightarrow>
      hc_method ?call = ''GET'' \<and> hc_url ?call = SpiderRestUrl env @ ''/vpc/'' @ req_Name u"
    by (simp add: driver_request_def)
  have url2: "opt = ''register'' \<and> req_CspVNetId u \<noteq> [] \<longrightarrow>
      hc_method ?call = ''POST'' \<and> hc_url ?call = SpiderRestUrl env @ ''/regvpc''"
    by (simp add: driver_request_def)
  have url3: "opt \<noteq> ''register'' \<longrightarrow>
      hc_method ?call = ''POST'' \<and> hc_url ?call = SpiderRestUrl env @ ''/vpc''"
    by (simp add: driver_request_def)
  have "\<exists>c'. kv (store (snd (CreateVNet env nsId u opt s))) ?Key = Some c'
          \<and> (vn_Id c', vn_Uuid c', vn_CspVNetName c', vn_CspVNetId c') =
            (vn_Id (content u opt ?uuid callResult :: 'a TbVNetInfo), vn_Uuid (content u opt ?uuid callResult :: 'a TbVNetInfo),
             vn_CspVNetName (content u opt ?uuid callResult :: 'a TbVNetInfo),
             vn_CspVNetId (content u opt ?uuid callResult :: 'a TbVNetInfo))"
    by (rule CreateVNet_entry[OF ok drv]) (use frame in auto)
  then obtain c where c: "kv (store (snd (CreateVNet env nsId u opt s))) ?Key = Some c"
    "vn_Id c = req_Name u" "vn_Uuid c = ?uuid" "vn_CspVNetName c = NameId (vpc_IId callResult)"
    "vn_CspVNetId c = SystemId (vpc_IId callResult)"
    by (auto simp: content_fields)
  show ?thesis
    using drv dc names url1 url2 url3 c by blast
qed

theorem CreateVNet_names_witness:
  "snd (fst (CreateVNet demo_env ''ns1'' demo_req [] demo_world)) = None
   \<and> snd (fst (CreateVNet demo_env ''ns1'' demo_req ''register'' demo_world)) = None
   \<and> driver_calls (trace (snd (CreateVNet demo_env ''ns1'' demo_req [] demo_world))) =
       [driver_request demo_env demo_req [] ''uid'']
   \<and> sent_names (driver_request demo_env demo_req [] ''uid'') = [''uid'', ''subnet-a'']
   \<and> hc_method (driver_request demo_env demo_req [] ''uid'') = ''POST''
   \<and> hc_url (driver_request demo_env demo_req [] ''uid'') = ''http://localhost:1024/spider/vpc''
   \<and> hc_method (driver_request demo_env demo_req ''register'' ''uid'') = ''GET''
   \<and> hc_url (driver_request demo_env demo_req ''register'' ''uid'') =
       ''http://localhost:1024/spider/vpc/vnet1''
   \<and> map_option vn_Id (kv (store (snd (CreateVNet demo_env ''ns1'' demo_req [] demo_world)))
        ''/ns/ns1/resources/vNet/vnet1'') = Some ''vnet1''
   \<and> map_option vn_Uuid (kv (store (snd (CreateVNet demo_env ''ns1'' demo_req [] demo_world)))
        ''/ns/ns1/resources/vNet/vnet1'') = Some ''uid''
   \<and> map_option vn_CspVNetName (kv (store (snd (CreateVNet demo_env ''ns1'' demo_req ''register'' demo_world)))
        ''/ns/ns1/resources/vNet/vnet1'') = Some ''uid''
   \<and> map_option vn_CspVNetId (kv (store (snd (CreateVNet demo_env ''ns1'' demo_req ''register'' demo_world)))
        ''/ns/ns1/resources/vNet/vnet1'') = Some ''vpc-0a1b''"
proof -
  have ok: "snd (fst (CreateVNet demo_env ''ns1'' demo_req [] demo_world)) = None"
    by (rule demo_call_ok)
  have ok_reg: "snd (fst (CreateVNet demo_env ''ns1'' demo_req ''register'' demo_world)) = None"
    by (rule demo_register_ok)
  have frame: "kv st (GenResourceKey ''ns1'' StrVNet (req_Name demo_req)) = Some c \<Longrightarrow>
       \<exists>c'. kv (snd (CreateSubnet demo_env ''ns1'' (req_Name demo_req) req True st))
                 (GenResourceKey ''ns1'' StrVNet (req_Name demo_req)) = Some c'
            \<and> vn_Id c' = vn_Id c \<and> vn_Uuid c' = vn_Uuid c
            \<and> vn_CspVNetName c' = vn_CspVNetName c \<and> vn_CspVNetId c' = vn_CspVNetId c" for req st c
    using demo_frame[of st c req] by auto
  have reg: "ExecuteHttpRequest demo_env (driver_request demo_env demo_req ''register'' ''uid'') = Inr demo_answer"
    by (simp add: demo_defs demo_answer_def driver_request_def requestBody_def spiderSubnetInfo_def)
  have ans: "vpc_IId demo_answer = \<lparr>NameId = ''uid'', SystemId = ''vpc-0a1b''\<rparr>"
    by (simp add: demo_answer_def)
  have emp: "driver_calls (trace demo_world) = []" by (simp add: demo_world_def)
  have ent: "map_option vn_Id (kv (store (snd (CreateVNet demo_env ''ns1'' demo_req [] demo_world)))
        ''/ns/ns1/resources/vNet/vnet1'') = Some ''vnet1''"
    by (simp add: CreateVNet_defs demo_defs)
  from CreateVNet_names [OF ok frame] CreateVNet_names [OF ok_reg frame] show ?thesis
    using ok ok_reg ent by (auto simp: demo_consts demo_drv_uid reg ans emp)
qed

text \<open>
  Claim C5 as stated fails. The subnet goes to the driver under the name
  \<^verbatim>\<open>subnet-a\<close> that the request gives it, not under a generated one; and with the option
  \<^verbatim>\<open>register\<close> the one request to the driver is for \<^verbatim>\<open>/vpc/vnet1\<close>, the id of the
  request.
\<close>

theorem CreateVNet_names_counterexample:
  "driver_calls (trace (snd (CreateVNet demo_env ''ns1'' demo_req [] demo_world))) =
     [driver_request demo_env demo_req [] ''uid'']
   \<and> sent_names (driver_request demo_env demo_req [] ''uid'') = [''uid'', ''subnet-a'']
   \<and> map sn_Name (req_SubnetInfoList demo_req) = [''subnet-a'']
   \<and> driver_calls (trace (snd (CreateVNet demo_env ''ns1'' demo_req ''register'' demo_world))) =
       [driver_request demo_env demo_req ''register'' ''uid'']
   \<and> hc_url (driver_request demo_env demo_req ''register'' ''uid'') =
       ''http://localhost:1024/spider/vpc/vnet1''
   \<and> req_Name demo_req = ''vnet1''"
  by (simp add: CreateVNet_defs demo_defs sent_names_def)

text \<open>
  Claim C6, as amended. For every \<^verbatim>\<open>UpdateConfig(name, value)\<close> with one of the seven
  names, when the store takes the write: the call returns the pair and no error, and the
  entry at \<^verbatim>\<open>/config/{name}\<close> holds the pair; a \<^verbatim>\<open>GetConfig(name)\<close> whose read
  succeeds returns the pair; a \<^verbatim>\<open>ListConfig\<close> that returns no error returns a list that
  holds the pair; and when the read inside \<^verbatim>\<open>UpdateEnv\<close> succeeds, the mirror variable of
  that name is the value after the same call.
\<close>

theorem UpdateConfig_allow_listed:
  assumes allow: "cr_Name u \<in> set allow_list"
    and put: "put_err (''/config/'' @ cr_Name u) = None"
  shows "fst (UpdateConfig put_err get_err u s) =
           (\<lparr>ci_Id = cr_Name u, ci_Name = cr_Name u, ci_Value = cr_Value u\<rparr>, None)
       \<and> CBStore_Get (''/config/'' @ cr_Name u) (snd (UpdateConfig put_err get_err u s)) =
           Some (\<lparr>ci_Id = cr_Name u, ci_Name = cr_Name u, ci_Value = cr_Value u\<rparr>, None)
       \<and> (\<forall>g. g (''/config/'' @ cr_Name u) = None \<longrightarrow>
             GetConfig g (cr_Name u) (snd (UpdateConfig put_err get_err u s)) =
               (\<lparr>ci_Id = cr_Name u, ci_Name = cr_Name u, ci_Value = cr_Value u\<rparr>, None))
       \<and> (\<forall>list_err. snd (ListConfig list_err (snd (UpdateConfig put_err get_err u s))) = None \<longrightarrow>
             (\<exists>l. fst (ListConfig list_err (snd (UpdateConfig put_err get_err u s))) = Some l
                 \<and> \<lparr>ci_Id = cr_Name u, ci_Name = cr_Name u, ci_Value = cr_Value u\<rparr> \<in> set l))
       \<and> (get_err (''/config/'' @ cr_Name u) = None \<longrightarrow>
             map_of (mirrors (snd (UpdateConfig put_err get_err u s))) (cr_Name u) = Some (cr_Value u))"
proof -
  let ?c = "\<lparr>ci_Id = cr_Name u, ci_Name = cr_Name u, ci_Value = cr_Value u\<rparr>"
  let ?key = "''/config/'' @ cr_Name u"
  let ?R = "UpdateConfig put_err get_err u s"
  let ?s1 = "snd (CBStore_Put put_err ?key (Marshal ?c) s)"
  from allow have n: "cr_Name u \<noteq> []" "CHR ''/'' \<notin> set (cr_Name u)"
    using allow_no_slash by blast+
  have st: "CBStore (snd ?R) = AList.update ?key (Marshal ?c) (CBStore s)"
    using put by (rule UpdateConfig_store[of put_err u get_err s])
  have r1: "fst ?R = (?c, None)"
    using put by (simp add: UpdateConfig_def Let_def CBStore_Put_def CBStore_Get_def update_conv')
  have lk: "map_of (CBStore (snd ?R)) ?key = Some (?c, None)"
    by (simp add: st update_conv' Marshal_def)
  then have r2: "CBStore_Get ?key (snd ?R) = Some (?c, None)"
    by (simp add: CBStore_Get_def)
  have r3: "\<forall>g. g ?key = None \<longrightarrow> GetConfig g (cr_Name u) (snd ?R) = (?c, None)"
    using GetConfig_found[OF lk n(1)] by blast
  have "(?key, (?c, None)) \<in> set (CBStore (snd ?R))"
    using mem_update[of ?key "Marshal ?c" "CBStore s"] by (simp add: st Marshal_def)
  then have r4: "\<forall>list_err. snd (ListConfig list_err (snd ?R)) = None \<longrightarrow>
             (\<exists>l. fst (ListConfig list_err (snd ?R)) = Some l \<and> ?c \<in> set l)"
    using ListConfig_member[OF _ n] by blast
  have r5: "get_err ?key = None \<longrightarrow> map_of (mirrors (snd ?R)) (cr_Name u) = Some (cr_Value u)"
  proof
    assume g: "get_err ?key = None"
    have "map_of (CBStore ?s1) ?key = Some (?c, None)"
      using put by (simp add: CBStore_Put_def update_conv' Marshal_def)
    then have g1: "GetConfig get_err (cr_Name u) ?s1 = (?c, None)"
      using n(1) g by (rule GetConfig_found)
    have eq: "snd ?R = snd (UpdateEnv get_err (cr_Name u) ?s1)"
      using put by (simp add: UpdateConfig_def Let_def CBStore_Put_def CBStore_Get_def update_conv')
    show "map_of (mirrors (snd ?R)) (cr_Name u) = Some (cr_Value u)"
      using UpdateEnv_mirror[OF g1 allow] by (simp add: eq)
  qed
  from r1 r2 r3 r4 r5 show ?thesis by blast
qed

theorem UpdateConfig_allow_listed_witness:
  "cr_Name spider_url_req \<in> set allow_list
   \<and> no_error (''/config/'' @ cr_Name spider_url_req) = None
   \<and> fst (UpdateConfig no_error no_error spider_url_req demo_cstate) = (spider_url_info, None)
   \<and> GetConfig no_error ''SPIDER_REST_URL'' (snd (UpdateConfig no_error no_error spider_url_req demo_cstate)) =
       (spider_url_info, None)
   \<and> snd (ListConfig no_error (snd (UpdateConfig no_error no_error spider_url_req demo_cstate))) = None
   \<and> ListConfig no_error (snd (UpdateConfig no_error no_error spider_url_req demo_cstate)) =
       (Some [spider_url_info], None)
   \<and> SPIDER_REST_URL (snd (UpdateConfig no_error no_error spider_url_req demo_cstate)) = ''http://x:1''"
proof -
  have a: "cr_Name spider_url_req \<in> set allow_list"
    by (simp add: spider_url_req_def allow_list_def Str_defs)
  have p: "no_error (''/config/'' @ cr_Name spider_url_req) = None"
    by (simp add: no_error_def)
  have n: "cr_Name spider_url_req = ''SPIDER_REST_URL''" "cr_Value spider_url_req = ''http://x:1''"
    "\<lparr>ci_Id = ''SPIDER_REST_URL'', ci_Name = ''SPIDER_REST_URL'', ci_Value = ''http://x:1''\<rparr> = spider_url_info"
    by (simp_all add: spider_url_req_def spider_url_info_def)
  have m: "map_of (mirrors st) ''SPIDER_REST_URL'' = Some (SPIDER_REST_URL st)" for st
    by (simp add: mirrors_def Str_defs)
  have l: "ListConfig no_error (snd (UpdateConfig no_error no_error spider_url_req demo_cstate)) =
       (Some [spider_url_info], None)"
    by (simp add: ListConfig_def Let_def GetChildList_def CBStore_GetList_def spider_url_run no_error_def
          Marshal_def)
  have mir: "SPIDER_REST_URL (snd (UpdateConfig no_error no_error spider_url_req demo_cstate)) = ''http://x:1''"
    by (simp add: UpdateConfig_def Let_def CBStore_Put_def CBStore_Get_def no_error_def UpdateEnv_def
          GetConfig_def CheckConfig_def spider_url_req_def demo_cstate_def Marshal_def Str_defs)
  from UpdateConfig_allow_listed [of spider_url_req no_error no_error demo_cstate, OF a p] a p l mir
  show ?thesis
    by (simp add: n m no_error_def)
qed

text \<open>
  Claim C6 as stated fails. When the store refuses the write, the update of
  \<^verbatim>\<open>SPIDER_REST_URL\<close> returns the store's error and the state is unchanged, with no
  entry. When the store takes the write and the read inside \<^verbatim>\<open>UpdateEnv\<close> fails, the
  update returns no error and the mirror variable keeps its old value. After a good update,
  a \<^verbatim>\<open>GetConfig\<close> or a \<^verbatim>\<open>ListConfig\<close> whose read fails returns the error.
\<close>

theorem UpdateConfig_allow_listed_counterexample:
  "cr_Name spider_url_req \<in> set allow_list
   \<and> UpdateConfig store_down no_error spider_url_req demo_cstate =
       ((spider_url_info, Some (StoreError ''store unavailable'')), demo_cstate)
   \<and> CBStore demo_cstate = []
   \<and> fst (UpdateConfig no_error store_down spider_url_req demo_cstate) = (spider_url_info, None)
   \<and> SPIDER_REST_URL (snd (UpdateConfig no_error store_down spider_url_req demo_cstate)) =
       ''http://localhost:1024/spider''
   \<and> cr_Value spider_url_req = ''http://x:1''
   \<and> GetConfig store_down ''SPIDER_REST_URL''
        (snd (UpdateConfig no_error no_error spider_url_req demo_cstate)) =
       (ConfigInfo_zero, Some (StoreError ''store unavailable''))
   \<and> ListConfig store_down (snd (UpdateConfig no_error no_error spider_url_req demo_cstate)) =
       (None, Some (StoreError ''store unavailable''))"
proof -
  have a: "cr_Name spider_url_req \<in> set allow_list"
    by (simp add: spider_url_req_def allow_list_def Str_defs)
  have b: "UpdateConfig store_down no_error spider_url_req demo_cstate =
       ((spider_url_info, Some (StoreError ''store unavailable'')), demo_cstate)"
    by (simp add: UpdateConfig_def Let_def CBStore_Put_def store_down_def spider_url_req_def
          spider_url_info_def)
  have c: "CBStore demo_cstate = []" "cr_Value spider_url_req = ''http://x:1''"
    by (simp_all add: demo_cstate_def spider_url_req_def)
  have d: "fst (UpdateConfig no_error store_down spider_url_req demo_cstate) = (spider_url_info, None)"
    by (simp add: UpdateConfig_def Let_def CBStore_Put_def CBStore_Get_def no_error_def
          spider_url_req_def spider_url_info_def demo_cstate_def)
  have e: "SPIDER_REST_URL (snd (UpdateConfig no_error store_down spider_url_req demo_cstate)) =
       ''http://localhost:1024/spider''"
    by (simp add: UpdateConfig_def Let_def CBStore_Put_def CBStore_Get_def no_error_def store_down_def
          UpdateEnv_def GetConfig_def CheckConfig_def spider_url_req_def demo_cstate_def Marshal_def)
  have f: "GetConfig store_down ''SPIDER_REST_URL''
        (snd (UpdateConfig no_error no_error spider_url_req demo_cstate)) =
       (ConfigInfo_zero, Some (StoreError ''store unavailable''))"
    by (simp add: GetConfig_def CheckConfig_def CBStore_Get_def Let_def spider_url_run store_down_def)
  have g: "ListConfig store_down (snd (UpdateConfig no_error no_error spider_url_req demo_cstate)) =
       (None, Some (StoreError ''store unavailable''))"
    by (simp add: ListConfig_def store_down_def)
  from a b c d e f g show ?thesis by blast
qed

text \<open>
  Claim C7. When \<^verbatim>\<open>CreateVNet\<close> has sent its request, the driver has answered with
  success and the store refuses the write, the call returns the object built and the
  store's error; the store is unchanged; and the calls recorded are the one request to the
  driver and the write, so no second request goes to the driver to undo the first.
\<close>

theorem CreateVNet_kv_failure:
  assumes sent: "driver_calls (trace (snd (CreateVNet env nsId u opt s))) \<noteq> driver_calls (trace s)"
    and drv: "ExecuteHttpRequest env (driver_request env u opt (GenUid env (uid_ctr s))) = Inr callResult"
    and put: "Put_err env (GenResourceKey nsId StrVNet (req_Name u)) = Some e"
  shows "CreateVNet env nsId u opt s =
           ((content u opt (GenUid env (uid_ctr s)) callResult, Some (KvError e)),
            s\<lparr>uid_ctr := Suc (uid_ctr s),
              trace := trace s @ [DriverCall (driver_request env u opt (GenUid env (uid_ctr s))),
                                  KvPut (GenResourceKey nsId StrVNet (req_Name u))
                                        (content u opt (GenUid env (uid_ctr s)) callResult)]\<rparr>)"
  using assms
  by (simp add: CreateVNet_def Let_def persist_vnet_def kvstore_Put_def content_fields
           split: option.splits if_splits)

theorem CreateVNet_kv_failure_witness:
  "driver_calls (trace (snd (CreateVNet demo_env_store_down ''ns1'' demo_req [] demo_world)))
     \<noteq> driver_calls (trace demo_world)
   \<and> snd (fst (CreateVNet demo_env_store_down ''ns1'' demo_req [] demo_world))
       = Some (KvError ''store unavailable'')
   \<and> store (snd (CreateVNet demo_env_store_down ''ns1'' demo_req [] demo_world)) = store demo_world
   \<and> driver_calls (trace (snd (CreateVNet demo_env_store_down ''ns1'' demo_req [] demo_world))) =
       [driver_request demo_env_store_down demo_req [] ''uid'']"
proof -
  have sent: "driver_calls (trace (snd (CreateVNet demo_env_store_down ''ns1'' demo_req [] demo_world)))
     \<noteq> driver_calls (trace demo_world)"
    by (simp add: CreateVNet_defs demo_defs)
  have drv: "ExecuteHttpRequest demo_env_store_down
       (driver_request demo_env_store_down demo_req [] (GenUid demo_env_store_down (uid_ctr demo_world)))
     = Inr \<lparr>vpc_IId = \<lparr>NameId = ''uid'', SystemId = ''vpc-0a1b''\<rparr>, vpc_IPv4_CIDR = ''10.0.0.0/16'',
         vpc_SubnetInfoList = [demo_subnet_answer (spiderSubnetInfo demo_subnet)],
         vpc_TagList = None, vpc_KeyValueList = None\<rparr>"
    by (simp add: demo_defs driver_request_def requestBody_def spiderSubnetInfo_def)
  have put: "Put_err demo_env_store_down (GenResourceKey ''ns1'' StrVNet (req_Name demo_req))
     = Some ''store unavailable''"
    by (simp add: demo_defs)
  have c: "GenUid demo_env_store_down (uid_ctr demo_world) = ''uid''" "trace demo_world = []"
    by (simp_all add: demo_defs)
  from CreateVNet_kv_failure [OF sent drv put] show ?thesis
    using sent by (simp add: c)
qed

text \<open>
  Claim C8, as amended. For every \<^verbatim>\<open>CreateVNet\<close> that returns no error, the calls made
  are the request to the driver, the write of the vNet, one \<^verbatim>\<open>CreateSubnet\<close> per subnet
  of the driver's answer in the answer's order, and the label call; each
  \<^verbatim>\<open>CreateSubnet\<close> is for the parent \<^verbatim>\<open>u.Name\<close>, with the driver's \<^verbatim>\<open>NameId\<close> as
  name and the driver's \<^verbatim>\<open>SystemId\<close> as \<^verbatim>\<open>IdFromCsp\<close>. The store after the call is
  the store with the vNet written, then what each of these \<^verbatim>\<open>CreateSubnet\<close> calls makes
  of it, in order and whatever error it returns, then the label entry.
\<close>

theorem CreateVNet_subnets:
  assumes ok: "snd (fst (CreateVNet env nsId u opt s)) = None"
  shows "\<exists>callResult.
           ExecuteHttpRequest env (driver_request env u opt (GenUid env (uid_ctr s))) = Inr callResult
         \<and> trace (snd (CreateVNet env nsId u opt s)) =
             trace s
             @ [DriverCall (driver_request env u opt (GenUid env (uid_ctr s))),
                KvPut (GenResourceKey nsId StrVNet (req_Name u))
                      (content u opt (GenUid env (uid_ctr s)) callResult)]
             @ map (subnet_call nsId (req_Name u)) (vpc_SubnetInfoList callResult)
             @ [LabelCall StrVNet (GenUid env (uid_ctr s)) (GenResourceKey nsId StrVNet (req_Name u))
                  [(''provider'', ''cb-tumblebug''), (''namespace'', nsId)]]
         \<and> (\<forall>v. \<exists>r. subnet_call nsId (req_Name u) v = SubnetCall nsId (req_Name u) r True
                  \<and> sn_Name r = NameId (ss_IId v) \<and> sn_IdFromCsp r = SystemId (ss_IId v))
         \<and> store (snd (CreateVNet env nsId u opt s)) =
             with_label
               (foldl (subnet_step env nsId (req_Name u))
                  (with_vnet (store s) (GenResourceKey nsId StrVNet (req_Name u))
                     (content u opt (GenUid env (uid_ctr s)) callResult))
                  (vpc_SubnetInfoList callResult))
               (''/label/'' @ StrVNet @ ''/'' @ GenUid env (uid_ctr s))
               (GenResourceKey nsId StrVNet (req_Name u),
                [(''provider'', ''cb-tumblebug''), (''namespace'', nsId)])
         \<and> (\<forall>st v. subnet_step env nsId (req_Name u) st v =
                     snd (CreateSubnet env nsId (req_Name u) (tbSubnetReq v) True st))"
proof -
  from CreateVNet_success_run[OF ok] obtain callResult where
    drv: "ExecuteHttpRequest env (driver_request env u opt (GenUid env (uid_ctr s))) = Inr callResult"
    and tr: "trace (snd (CreateVNet env nsId u opt s)) =
             trace s
             @ [DriverCall (driver_request env u opt (GenUid env (uid_ctr s))),
                KvPut (GenResourceKey nsId StrVNet (req_Name u))
                      (content u opt (GenUid env (uid_ctr s)) callResult)]
             @ map (subnet_call nsId (req_Name u)) (vpc_SubnetInfoList callResult)
             @ [LabelCall StrVNet (GenUid env (uid_ctr s)) (GenResourceKey nsId StrVNet (req_Name u))
                  [(''provider'', ''cb-tumblebug''), (''namespace'', nsId)]]"
    and st: "store (snd (CreateVNet env nsId u opt s)) =
             with_label
               (foldl (subnet_step env nsId (req_Name u))
                  (with_vnet (store s) (GenResourceKey nsId StrVNet (req_Name u))
                     (content u opt (GenUid env (uid_ctr s)) callResult))
                  (vpc_SubnetInfoList callResult))
               (''/label/'' @ StrVNet @ ''/'' @ GenUid env (uid_ctr s))
               (GenResourceKey nsId StrVNet (req_Name u),
                [(''provider'', ''cb-tumblebug''), (''namespace'', nsId)])"
    by blast
  show ?thesis
  proof (intro exI[of _ callResult] conjI allI)
    fix v
    show "\<exists>r. subnet_call nsId (req_Name u) v = SubnetCall nsId (req_Name u) r True
           \<and> sn_Name r = NameId (ss_IId v) \<and> sn_IdFromCsp r = SystemId (ss_IId v)"
      by (simp add: subnet_call_def tbSubnetReq_def)
  next
    fix st v
    show "subnet_step env nsId (req_Name u) st v =
            snd (CreateSubnet env nsId (req_Name u) (tbSubnetReq v) True st)"
      by (simp add: subnet_step_def)
  qed (rule drv tr st)+
qed

theorem CreateVNet_subnets_witness:
  "snd (fst (CreateVNet demo_env ''ns1'' demo_req [] demo_world)) = None
   \<and> trace (snd (CreateVNet demo_env ''ns1'' demo_req [] demo_world)) ! 2 =
       SubnetCall ''ns1'' ''vnet1''
        \<lparr>sn_Name = ''subnet-a'', sn_IdFromCsp = ''subnet-0c2d'', sn_IPv4_CIDR = ''10.0.1.0/24'',
         sn_Zone = ''zone-a'', sn_KeyValueList = [], sn_Description = []\<rparr> True
   \<and> length (trace (snd (CreateVNet demo_env ''ns1'' demo_req [] demo_world))) = 4
   \<and> map_option vn_SubnetInfoList
        (kv (store (snd (CreateVNet demo_env ''ns1'' demo_req [] demo_world))) ''/ns/ns1/resources/vNet/vnet1'')
       = Some (Some [\<lparr>sn_Name = ''subnet-a'', sn_IdFromCsp = ''subnet-0c2d'', sn_IPv4_CIDR = ''10.0.1.0/24'',
                      sn_Zone = ''zone-a'', sn_KeyValueList = [], sn_Description = []\<rparr>])"
proof -
  have ok: "snd (fst (CreateVNet demo_env ''ns1'' demo_req [] demo_world)) = None"
    by (rule demo_call_ok)
  have c: "vpc_SubnetInfoList demo_answer =
             [\<lparr>ss_IId = \<lparr>NameId = ''subnet-a'', SystemId = ''subnet-0c2d''\<rparr>, ss_Zone = ''zone-a'',
               ss_IPv4_CIDR = ''10.0.1.0/24'', ss_TagList = [], ss_KeyValueList = []\<rparr>]"
    "subnet_call ''ns1'' ''vnet1''
        \<lparr>ss_IId = \<lparr>NameId = ''subnet-a'', SystemId = ''subnet-0c2d''\<rparr>, ss_Zone = ''zone-a'',
         ss_IPv4_CIDR = ''10.0.1.0/24'', ss_TagList = [], ss_KeyValueList = []\<rparr> =
       (SubnetCall ''ns1'' ''vnet1''
        \<lparr>sn_Name = ''subnet-a'', sn_IdFromCsp = ''subnet-0c2d'', sn_IPv4_CIDR = ''10.0.1.0/24'',
         sn_Zone = ''zone-a'', sn_KeyValueList = [], sn_Description = []\<rparr> True :: TbSubnetReq event)"
    by (simp_all add: demo_answer_def subnet_call_def tbSubnetReq_def)
  have e: "map_option vn_SubnetInfoList
        (kv (with_label
               (foldl (subnet_step demo_env ''ns1'' ''vnet1'')
                  (with_vnet (store demo_world) ''/ns/ns1/resources/vNet/vnet1''
                     (content demo_req [] ''uid'' demo_answer))
                  (vpc_SubnetInfoList demo_answer))
               (''/label/'' @ StrVNet @ ''/'' @ ''uid'')
               (''/ns/ns1/resources/vNet/vnet1'', [(''provider'', ''cb-tumblebug''), (''namespace'', ''ns1'')]))
           ''/ns/ns1/resources/vNet/vnet1'')
       = Some (Some [\<lparr>sn_Name = ''subnet-a'', sn_IdFromCsp = ''subnet-0c2d'', sn_IPv4_CIDR = ''10.0.1.0/24'',
                      sn_Zone = ''zone-a'', sn_KeyValueList = [], sn_Description = []\<rparr>])"
    by (simp add: with_label_def with_vnet_def subnet_step_def demo_defs demo_answer_def tbSubnetReq_def
          content_def TbVNetInfo_zero_def GenResourceKey_def StrVNet_def)
  have ent: "map_option vn_SubnetInfoList
        (kv (store (snd (CreateVNet demo_env ''ns1'' demo_req [] demo_world))) ''/ns/ns1/resources/vNet/vnet1'')
       = Some (Some [\<lparr>sn_Name = ''subnet-a'', sn_IdFromCsp = ''subnet-0c2d'', sn_IPv4_CIDR = ''10.0.1.0/24'',
                      sn_Zone = ''zone-a'', sn_KeyValueList = [], sn_Description = []\<rparr>])"
    by (simp add: CreateVNet_defs demo_defs)
  from CreateVNet_subnets [OF ok] show ?thesis
    using ok e ent by (auto simp: demo_drv_uid demo_consts c)
qed

text \<open>
  Claim C8 as stated fails: the error of \<^verbatim>\<open>CreateSubnet\<close> is only logged. The
  driver's answer has one subnet, \<^verbatim>\<open>CreateSubnet\<close> fails for it and changes nothing, and
  \<^verbatim>\<open>CreateVNet\<close> returns no error: the store holds the vNet and its label only, and the
  vNet returned lists no subnet.
\<close>

theorem CreateVNet_subnets_counterexample:
  "snd (fst (CreateVNet demo_env_subnet_down ''ns1'' demo_req [] demo_world)) = None
   \<and> ExecuteHttpRequest demo_env_subnet_down (driver_request demo_env_subnet_down demo_req [] ''uid'')
       = Inr demo_answer
   \<and> length (vpc_SubnetInfoList demo_answer) = 1
   \<and> store (snd (CreateVNet demo_env_subnet_down ''ns1'' demo_req [] demo_world)) =
       with_label
         (with_vnet (store demo_world) ''/ns/ns1/resources/vNet/vnet1'' (content demo_req [] ''uid'' demo_answer))
         ''/label/vNet/uid''
         (''/ns/ns1/resources/vNet/vnet1'', [(''provider'', ''cb-tumblebug''), (''namespace'', ''ns1'')])
   \<and> vn_SubnetInfoList (fst (fst (CreateVNet demo_env_subnet_down ''ns1'' demo_req [] demo_world))) = None"
  by (simp add: CreateVNet_defs demo_defs demo_answer_def with_label_def with_vnet_def)

text \<open>
  Claim C9, as amended. When \<^verbatim>\<open>CheckString\<close> refuses the namespace id or the name, or
  the name or the connection name is empty, \<^verbatim>\<open>CreateVNet\<close> returns the zero object
  with the error of \<^verbatim>\<open>CheckString\<close> or the validator's errors, and the world is as
  before: no request to the driver, nothing stored. The CIDR block is not checked.
\<close>

theorem CreateVNet_invalid_input:
  assumes "CheckString env nsId \<noteq> None \<or> req_Name u = [] \<or> CheckString env (req_Name u) \<noteq> None
           \<or> req_ConnectionName u = []"
  shows "snd (CreateVNet env nsId u opt s) = s
       \<and> fst (fst (CreateVNet env nsId u opt s)) = TbVNetInfo_zero
       \<and> ((\<exists>e. snd (fst (CreateVNet env nsId u opt s)) = Some (CheckStringError e))
          \<or> (\<exists>es. snd (fst (CreateVNet env nsId u opt s)) = Some (ValidationErrors es)))"
proof (cases "CheckString env nsId")
  case (Some e)
  then show ?thesis by (simp add: CreateVNet_def)
next
  case None
  with assms have "validate_Struct env u \<noteq> None" by (auto simp: validate_Struct_None_iff)
  then obtain e where e: "validate_Struct env u = Some e" by blast
  with validate_Struct_Some obtain es where "e = ValidationErrors es" by blast
  with None e show ?thesis by (simp add: CreateVNet_def)
qed

theorem CreateVNet_invalid_input_witness:
  "req_ConnectionName no_connection_req = []
   \<and> CreateVNet demo_env ''ns1'' no_connection_req [] demo_world =
       ((TbVNetInfo_zero, Some (ValidationErrors [(''ConnectionName'', ''required'')])), demo_world)"
proof -
  have h: "req_ConnectionName no_connection_req = []" by (simp add: demo_defs)
  have v: "snd (fst (CreateVNet demo_env ''ns1'' no_connection_req [] demo_world)) =
             Some (ValidationErrors [(''ConnectionName'', ''required'')])"
    by (simp add: CreateVNet_defs demo_defs)
  from CreateVNet_invalid_input [of demo_env "''ns1''" no_connection_req "[]" demo_world] h v
  show ?thesis by (simp add: prod_eq_iff)
qed

text \<open>
  Claim C9 as stated fails for the CIDR syntax: a request whose CIDR block is
  \<^verbatim>\<open>not-a-cidr\<close> passes the validation and is sent to the driver with that block; the
  error returned is the driver's.
\<close>

theorem CreateVNet_invalid_input_counterexample:
  "fst (CreateVNet demo_env ''ns1'' bad_cidr_req [] demo_world)
     = (TbVNetInfo_zero, Some (HttpError ''400 Bad Request''))
   \<and> driver_calls (trace (snd (CreateVNet demo_env ''ns1'' bad_cidr_req [] demo_world))) =
       [driver_request demo_env bad_cidr_req [] ''uid'']
   \<and> vr_IPv4_CIDR (w_ReqInfo (hc_body (driver_request demo_env bad_cidr_req [] ''uid''))) = ''not-a-cidr''"
  by (simp add: CreateVNet_defs demo_defs)



end
